theory Spec2Isabelle
  imports Main
begin

section \<open>Outline VPN key bot: storage, remote client and handlers\<close>

text \<open>
  A shallow embedding of \<^verbatim>\<open>database.py\<close>, \<^verbatim>\<open>outline_api.py\<close>, \<^verbatim>\<open>utils.py\<close> and the
  handlers of \<^verbatim>\<open>key_manager.py\<close>. Python integers are \<open>int\<close>, strings are \<open>string\<close>,
  exceptions are values of \<open>exn\<close>, and every store the code mutates (the SQLite tables, the
  global \<^verbatim>\<open>user_states\<close> dictionary, the calls made on the bot and on the remote server)
  is a field of an explicit state that the modelled function returns updated.
\<close>

subsection \<open>Exceptions and configuration\<close>

datatype exn = AttributeError | ValueError | KeyError | IndexError | OverflowError
  | RequestError

text \<open>
  \<^verbatim>\<open>config.py\<close>: the values the code reads. \<open>config_example\<close> carries the values of
  \<^verbatim>\<open>config.example.py\<close>; \<^verbatim>\<open>ENABLE_ACCESS_LOG\<close> is read by \<^verbatim>\<open>log_activity\<close> and has no
  value in the example file.
\<close>

record config =
  ADMIN_IDS :: "int list"
  MAX_KEYS_PER_USER :: int
  MAX_KEYS_PER_ADMIN :: int
  ENABLE_ACCESS_LOG :: bool

definition config_example :: config where
  "config_example =
     \<lparr>ADMIN_IDS = [123456789, 987654321], MAX_KEYS_PER_USER = 1, MAX_KEYS_PER_ADMIN = 10,
      ENABLE_ACCESS_LOG = True\<rparr>"

subsection \<open>The SQLite tables\<close>

text \<open>
  Table \<^verbatim>\<open>users\<close> has \<^verbatim>\<open>user_id\<close> as primary key, so it is a map from the identity to the
  rest of the row. Table \<^verbatim>\<open>access_keys\<close> has only the surrogate \<^verbatim>\<open>id\<close> as key and no
  uniqueness constraint on \<^verbatim>\<open>key_id\<close>: it is the list of its rows in rowid order, which is
  the order in which an unordered \<^verbatim>\<open>SELECT\<close> walks the table.
\<close>

record user_row =
  username :: "string option"
  first_name :: "string option"
  last_name :: "string option"
  language_code :: "string option"
  u_is_admin :: int
  u_is_blocked :: int
  u_created_at :: int
  last_activity :: int

record key_row =
  k_user_id :: int
  k_key_id :: string
  k_name :: string
  access_url :: string
  data_limit :: int
  paid_until :: int
  k_created_at :: int

record activity =
  a_user_id :: int
  action :: string
  details :: string
  timestamp :: int

record database =
  users :: "int \<rightharpoonup> user_row"
  access_keys :: "key_row list"
  activity_log :: "activity list"

definition is_user_blocked :: "database \<Rightarrow> int \<Rightarrow> bool" where
  "is_user_blocked d user_id =
     (case users d user_id of Some result \<Rightarrow> u_is_blocked result \<noteq> 0 | None \<Rightarrow> False)"

definition is_admin :: "config \<Rightarrow> database \<Rightarrow> int \<Rightarrow> bool" where
  "is_admin cfg d user_id =
     (if user_id \<in> set (ADMIN_IDS cfg) then True
      else (case users d user_id of Some result \<Rightarrow> u_is_admin result \<noteq> 0 | None \<Rightarrow> False))"

definition log_activity :: "config \<Rightarrow> int \<Rightarrow> database \<Rightarrow> int \<Rightarrow> string \<Rightarrow> string \<Rightarrow> database" where
  "log_activity cfg now d user_id act det =
     (if \<not> ENABLE_ACCESS_LOG cfg then d
      else d\<lparr>activity_log := activity_log d @
             [\<lparr>a_user_id = user_id, action = act, details = det, timestamp = now\<rparr>]\<rparr>)"

definition update_key_payment :: "database \<Rightarrow> string \<Rightarrow> int \<Rightarrow> bool \<times> database" where
  "update_key_payment d key_id p =
     (\<exists>k \<in> set (access_keys d). k_key_id k = key_id,
      d\<lparr>access_keys :=
          map (\<lambda>k. if k_key_id k = key_id then k\<lparr>paid_until := p\<rparr> else k) (access_keys d)\<rparr>)"

definition update_key_limit :: "database \<Rightarrow> string \<Rightarrow> int \<Rightarrow> bool \<times> database" where
  "update_key_limit d key_id l =
     (if \<not> (\<exists>k \<in> set (access_keys d). k_key_id k = key_id) then (False, d)
      else (True,
        d\<lparr>access_keys :=
            map (\<lambda>k. if k_key_id k = key_id then k\<lparr>data_limit := l\<rparr> else k) (access_keys d)\<rparr>))"

definition get_key_owner :: "database \<Rightarrow> string \<Rightarrow> int option" where
  "get_key_owner d key_id =
     (case filter (\<lambda>k. k_key_id k = key_id) (access_keys d) of
        [] \<Rightarrow> None | result # _ \<Rightarrow> Some (k_user_id result))"

definition delete_key :: "database \<Rightarrow> string \<Rightarrow> bool \<times> database" where
  "delete_key d key_id =
     (\<exists>k \<in> set (access_keys d). k_key_id k = key_id,
      d\<lparr>access_keys := filter (\<lambda>k. k_key_id k \<noteq> key_id) (access_keys d)\<rparr>)"

definition count_user_keys :: "database \<Rightarrow> int \<Rightarrow> int" where
  "count_user_keys d user_id = int (length (filter (\<lambda>k. k_user_id k = user_id) (access_keys d)))"

subsection \<open>Strings and the built-in conversions\<close>

text \<open>
  A \<open>string\<close> is a list of 8-bit characters: the code points below 256 of a Python
  \<^verbatim>\<open>str\<close>. \<open>strip\<close> is \<^verbatim>\<open>str.strip()\<close>, \<open>split_on c\<close> is \<^verbatim>\<open>str.split(c)\<close>, \<open>startswith\<close>
  is \<^verbatim>\<open>str.startswith\<close>. \<open>py_int\<close> is \<^verbatim>\<open>int(s)\<close> on a string: surrounding whitespace, an
  optional sign, decimal digits with single underscores between them; anything else
  raises \<^verbatim>\<open>ValueError\<close>. The whitespace of \<^verbatim>\<open>int\<close> is narrower than that of \<^verbatim>\<open>strip\<close>: the
  separators U+001C to U+001F, which \<^verbatim>\<open>strip\<close> removes, are no whitespace for \<^verbatim>\<open>int\<close>. (The
  interpreter's configurable limit on the length of such a literal is not part of the
  model.)
\<close>

definition is_space :: "char \<Rightarrow> bool" where
  "is_space c =
     (let n = (of_char c :: nat) in (9 \<le> n \<and> n \<le> 13) \<or> (28 \<le> n \<and> n \<le> 32) \<or> n = 133 \<or> n = 160)"

definition strip :: "string \<Rightarrow> string" where
  "strip s = rev (dropWhile is_space (rev (dropWhile is_space s)))"

fun split_on :: "char \<Rightarrow> string \<Rightarrow> string list" where
  "split_on c [] = [[]]"
| "split_on c (x # xs) =
     (if x = c then [] # split_on c xs
      else (case split_on c xs of p # ps \<Rightarrow> (x # p) # ps | [] \<Rightarrow> [[x]]))"

definition startswith :: "string \<Rightarrow> string \<Rightarrow> bool" where
  "startswith s p = (take (length p) s = p)"

definition is_digit :: "char \<Rightarrow> bool" where
  "is_digit c = (let n = (of_char c :: nat) in 48 \<le> n \<and> n \<le> 57)"

definition digit_value :: "char \<Rightarrow> int" where
  "digit_value c = int (of_char c) - 48"

fun digits_value :: "int \<Rightarrow> string \<Rightarrow> int option" where
  "digits_value acc [] = Some acc"
| "digits_value acc [c] = (if is_digit c then Some (10 * acc + digit_value c) else None)"
| "digits_value acc (c # d # cs) =
     (if is_digit c then digits_value (10 * acc + digit_value c) (d # cs)
      else if c = CHR ''_'' \<and> is_digit d then digits_value (10 * acc + digit_value d) cs
      else None)"

definition is_int_space :: "char \<Rightarrow> bool" where
  "is_int_space c =
     (let n = (of_char c :: nat) in (9 \<le> n \<and> n \<le> 13) \<or> n = 32 \<or> n = 133 \<or> n = 160)"

definition py_int :: "string \<Rightarrow> exn + int" where
  "py_int s =
     (let t = rev (dropWhile is_int_space (rev (dropWhile is_int_space s)));
          negative = (case t of c # cs \<Rightarrow> c = CHR ''-'' | [] \<Rightarrow> False);
          body = (case t of c # cs \<Rightarrow> if c = CHR ''-'' \<or> c = CHR ''+'' then cs else t | [] \<Rightarrow> [])
      in case body of
        [] \<Rightarrow> Inl ValueError
      | c # cs \<Rightarrow>
          if is_digit c then
            (case digits_value (digit_value c) cs of
               None \<Rightarrow> Inl ValueError
             | Some n \<Rightarrow> Inr (if negative then - n else n))
          else Inl ValueError)"

text \<open>
  Python's \<^verbatim>\<open>float\<close> is binary floating point, which the model does not fix: the four
  operations the code uses on a float are parameters, and what is proved holds for every
  choice of them. \<open>py_float\<close> is \<^verbatim>\<open>float(s)\<close>, \<open>float_le_zero x\<close> is \<^verbatim>\<open>x <= 0\<close>,
  \<open>float_times x n\<close> is \<^verbatim>\<open>x * n\<close> for an integer literal \<open>n\<close>, \<open>float_to_int\<close> is \<^verbatim>\<open>int(x)\<close>
  (which raises for a NaN and for an infinity).
\<close>

record 'f float_ops =
  py_float :: "string \<Rightarrow> exn + 'f"
  float_le_zero :: "'f \<Rightarrow> bool"
  float_times :: "'f \<Rightarrow> int \<Rightarrow> 'f"
  float_to_int :: "'f \<Rightarrow> exn + int"

text \<open>
  \<open>whole_floats\<close> is float arithmetic on whole numbers, where it is exact (below \<open>2^53\<close>).
  It answers \<^verbatim>\<open>ValueError\<close> for every text that is not an integer literal, so it stands
  for Python's floats only at such texts and at texts that are no number at all; it is
  used for concrete examples only.
\<close>

definition whole_floats :: "int float_ops" where
  "whole_floats =
     \<lparr>py_float = py_int, float_le_zero = (\<lambda>x. x \<le> 0), float_times = (\<lambda>x n. x * n),
      float_to_int = Inr\<rparr>"

subsection \<open>\<^verbatim>\<open>utils.py\<close>\<close>

text \<open>
  \<^verbatim>\<open>gb_to_bytes(gb)\<close> takes an \<^verbatim>\<open>int\<close> or a \<^verbatim>\<open>float\<close> and returns
  \<^verbatim>\<open>int(gb * 1024 * 1024 * 1024)\<close>.
\<close>

datatype 'f number = PyInt int | PyFloat 'f

definition gb_to_bytes :: "'f float_ops \<Rightarrow> 'f number \<Rightarrow> exn + int" where
  "gb_to_bytes F gb =
     (case gb of
        PyInt n \<Rightarrow> Inr (n * 1024 * 1024 * 1024)
      | PyFloat x \<Rightarrow> float_to_int F (float_times F (float_times F (float_times F x 1024) 1024) 1024))"

subsection \<open>Storing a key\<close>

text \<open>
  The dictionary of a key as the server sends it: \<^verbatim>\<open>id\<close>, \<^verbatim>\<open>name\<close>, \<^verbatim>\<open>accessUrl\<close> and
  \<^verbatim>\<open>dataLimit\<close>, each of which may be absent. \<open>save_access_key\<close> is called by the handlers
  with the default \<^verbatim>\<open>paid_until=None\<close> and \<^verbatim>\<open>data_limit=0\<close>; a dictionary without \<^verbatim>\<open>id\<close>
  matches no row and is inserted with the empty key identifier.
\<close>

record remote_key =
  rk_id :: "string option"
  rk_name :: "string option"
  rk_accessUrl :: "string option"
  rk_dataLimit :: "int option option"

definition get_or :: "'a option \<Rightarrow> 'a \<Rightarrow> 'a" where
  "get_or v dflt = (case v of None \<Rightarrow> dflt | Some x \<Rightarrow> x)"

definition save_access_key :: "int \<Rightarrow> database \<Rightarrow> int \<Rightarrow> remote_key \<Rightarrow> database" where
  "save_access_key now d user_id key_data =
     (let existing_key =
        (case rk_id key_data of
           None \<Rightarrow> False
         | Some i \<Rightarrow> \<exists>k \<in> set (access_keys d). k_key_id k = i)
      in if existing_key then
           d\<lparr>access_keys :=
               map (\<lambda>k. if Some (k_key_id k) = rk_id key_data
                         then k\<lparr>k_user_id := user_id, k_name := get_or (rk_name key_data) [],
                                access_url := get_or (rk_accessUrl key_data) [],
                                data_limit := 0, paid_until := 0\<rparr>
                         else k) (access_keys d)\<rparr>
         else
           d\<lparr>access_keys := access_keys d @
               [\<lparr>k_user_id = user_id, k_key_id = get_or (rk_id key_data) [],
                 k_name = get_or (rk_name key_data) [],
                 access_url = get_or (rk_accessUrl key_data) [],
                 data_limit = 0, paid_until = 0, k_created_at = now\<rparr>]\<rparr>)"

subsection \<open>\<^verbatim>\<open>sync_keys_with_server\<close>\<close>

text \<open>
  \<open>db_keys_of\<close> is the dictionary \<^verbatim>\<open>{row['key_id']: row['data_limit']}\<close> built from the
  table before the loop: for a key identifier with several rows, the last row wins. The
  loop does not update it.
\<close>

definition db_keys_of :: "database \<Rightarrow> (string \<rightharpoonup> int)" where
  "db_keys_of d = map_of (rev (map (\<lambda>k. (k_key_id k, data_limit k)) (access_keys d)))"

text \<open>
  The label of a key without a usable name is \<^verbatim>\<open>f"\<dots>_{key_id}"\<close> with a Cyrillic word
  for "key"; the word is written here with the bytes of its UTF-8 encoding, and nothing
  inspects it.
\<close>

definition label_prefix :: string where
  "label_prefix =
     [CHR 0xD0, CHR 0x9A, CHR 0xD0, CHR 0xBB, CHR 0xD1, CHR 0x8E, CHR 0xD1, CHR 0x87, CHR ''_'']"

definition key_name_of :: "remote_key \<Rightarrow> string \<Rightarrow> string" where
  "key_name_of key key_id =
     (case rk_name key of
        None \<Rightarrow> label_prefix @ key_id
      | Some key_name \<Rightarrow>
          if key_name = [] \<or> startswith key_name ''Temporary_'' then label_prefix @ key_id
          else key_name)"

definition data_limit_of :: "remote_key \<Rightarrow> int" where
  "data_limit_of key = (case rk_dataLimit key of Some (Some bytes) \<Rightarrow> bytes | _ \<Rightarrow> 0)"

text \<open>
  \<^verbatim>\<open>INSERT OR IGNORE INTO users\<close>: the row is added unless the identity has one already.
  The columns the statement does not name take their defaults.
\<close>

definition insert_or_ignore_user :: "int \<Rightarrow> string \<Rightarrow> int \<Rightarrow> (int \<rightharpoonup> user_row) \<Rightarrow> (int \<rightharpoonup> user_row)" where
  "insert_or_ignore_user user_id name now us =
     (case us user_id of
        Some row \<Rightarrow> us
      | None \<Rightarrow>
          us(user_id \<mapsto>
            \<lparr>username = Some name, first_name = None, last_name = None, language_code = None,
             u_is_admin = 0, u_is_blocked = 0, u_created_at = now, last_activity = now\<rparr>))"

text \<open>
  An integer bound to a parameter of a statement must fit SQLite's signed 64-bit
  \<^verbatim>\<open>INTEGER\<close>; otherwise \<^verbatim>\<open>execute\<close> raises \<^verbatim>\<open>OverflowError\<close>.
\<close>

definition sqlite_integer :: "int \<Rightarrow> bool" where
  "sqlite_integer n = (- (2 ^ 63) \<le> n \<and> n < 2 ^ 63)"

text \<open>
  One turn of the loop. The placeholder identity is \<^verbatim>\<open>-int(key_id)\<close>. The two inserts are
  one transaction that is committed after the second: when \<^verbatim>\<open>int(key_id)\<close>, the binding
  of the identity, \<^verbatim>\<open>key['accessUrl']\<close> or the binding of the limit raises, in this order,
  nothing of the turn is stored. \<open>now\<close> is the reading of \<^verbatim>\<open>int(time.time())\<close> during the
  pass, a value that fits.
\<close>

definition sync_key :: "(string \<rightharpoonup> int) \<Rightarrow> int \<Rightarrow> remote_key \<Rightarrow> database \<Rightarrow> exn + database" where
  "sync_key db_keys now key d =
     (case rk_id key of
        None \<Rightarrow> Inl KeyError
      | Some key_id \<Rightarrow>
          (let key_name = key_name_of key key_id;
               limit = data_limit_of key
           in case db_keys key_id of
                None \<Rightarrow>
                  (case py_int key_id of
                     Inl e \<Rightarrow> Inl e
                   | Inr n \<Rightarrow>
                       if \<not> sqlite_integer (- n) then Inl OverflowError
                       else
                         (case rk_accessUrl key of
                            None \<Rightarrow> Inl KeyError
                          | Some url \<Rightarrow>
                              if \<not> sqlite_integer limit then Inl OverflowError
                              else
                                Inr (d\<lparr>users :=
                                         insert_or_ignore_user (- n) key_name now (users d),
                                       access_keys := access_keys d @
                                         [\<lparr>k_user_id = - n, k_key_id = key_id,
                                           k_name = key_name, access_url = url,
                                           data_limit = limit, paid_until = 0,
                                           k_created_at = now\<rparr>]\<rparr>)))
              | Some db_limit \<Rightarrow>
                  if db_limit \<noteq> limit
                  then
                    (if \<not> sqlite_integer limit then Inl OverflowError
                     else Inr (d\<lparr>access_keys :=
                              map (\<lambda>k. if k_key_id k = key_id then k\<lparr>data_limit := limit\<rparr> else k)
                                (access_keys d)\<rparr>))
                  else Inr d))"

text \<open>
  The loop stops at the first exception, which the \<^verbatim>\<open>except Exception\<close> around the whole
  pass swallows; what the earlier turns committed stays.
\<close>

fun sync_loop :: "(string \<rightharpoonup> int) \<Rightarrow> int \<Rightarrow> remote_key list \<Rightarrow> database \<Rightarrow> database" where
  "sync_loop db_keys now [] d = d"
| "sync_loop db_keys now (key # keys) d =
     (case sync_key db_keys now key d of
        Inl e \<Rightarrow> d
      | Inr d' \<Rightarrow> sync_loop db_keys now keys d')"

definition sync_keys_with_server :: "(exn + remote_key list) \<Rightarrow> int \<Rightarrow> database \<Rightarrow> database" where
  "sync_keys_with_server server_keys now d =
     (case server_keys of
        Inl e \<Rightarrow> d
      | Inr keys \<Rightarrow> sync_loop (db_keys_of d) now keys d)"

subsection \<open>The remote client\<close>

text \<open>
  \<^verbatim>\<open>OutlineAPI._request\<close> either returns the decoded JSON body or raises. The server is
  outside the program, so each modelled client function takes the outcome of every
  request it may issue as an argument (\<open>Inl\<close> an exception, \<open>Inr\<close> the body) and returns,
  beside its result, the requests it issued, in order. A request is its method, its
  endpoint and, for the one request that carries a body, the \<^verbatim>\<open>limit.bytes\<close> of that body.
\<close>

datatype http_request = Request string string "int option"

text \<open>
  The fields the code reads in the body of \<^verbatim>\<open>GET /access-keys/{id}\<close>. For the nested
  objects, \<open>None\<close> is an absent field, \<open>Some None\<close> an object without \<^verbatim>\<open>bytes\<close>.
\<close>

record key_info =
  dataLimit :: "int option option"
  usageBytes :: "int option"
  usage :: "int option option"

record report =
  bytesTransferredByUserId :: "(string \<rightharpoonup> int) option"

definition set_data_limit ::
  "(exn + unit) \<Rightarrow> (exn + key_info) \<Rightarrow> string \<Rightarrow> int \<Rightarrow> bool \<times> http_request list" where
  "set_data_limit change_response read_response key_id limit_bytes =
     (let change =
        (if limit_bytes > 0
         then Request ''PUT'' (''/access-keys/'' @ key_id @ ''/data-limit'') (Some limit_bytes)
         else Request ''DELETE'' (''/access-keys/'' @ key_id @ ''/data-limit'') None)
      in case change_response of
        Inl e \<Rightarrow> (False, [change])
      | Inr response \<Rightarrow>
          (let issued = [change, Request ''GET'' (''/access-keys/'' @ key_id) None]
           in case read_response of
             Inl e \<Rightarrow> (True, issued)
           | Inr info \<Rightarrow>
               if limit_bytes > 0 then
                 (case dataLimit info of
                    None \<Rightarrow> (False, issued)
                  | Some None \<Rightarrow> (False, issued)
                  | Some (Some actual_limit) \<Rightarrow>
                      if actual_limit \<noteq> limit_bytes then (False, issued) else (True, issued))
               else if dataLimit info \<noteq> None then (False, issued)
               else (True, issued)))"

text \<open>
  \<^verbatim>\<open>delete_access_key\<close> turns a failed request into the result \<^verbatim>\<open>False\<close>.
\<close>

definition delete_access_key :: "(exn + unit) \<Rightarrow> string \<Rightarrow> bool \<times> http_request list" where
  "delete_access_key response key_id =
     (case response of Inl e \<Rightarrow> False | Inr r \<Rightarrow> True,
      [Request ''DELETE'' (''/access-keys/'' @ key_id) None])"

text \<open>
  \<^verbatim>\<open>get_server_transfer_stats\<close> and \<^verbatim>\<open>get_metrics\<close> answer the empty dictionary when the
  request fails.
\<close>

definition get_server_transfer_stats :: "(exn + report) \<Rightarrow> report" where
  "get_server_transfer_stats response =
     (case response of Inl e \<Rightarrow> \<lparr>bytesTransferredByUserId = None\<rparr> | Inr stats \<Rightarrow> stats)"

definition get_metrics :: "(exn + report) \<Rightarrow> report" where
  "get_metrics response =
     (case response of Inl e \<Rightarrow> \<lparr>bytesTransferredByUserId = None\<rparr> | Inr metrics \<Rightarrow> metrics)"

text \<open>
  Each branch of \<^verbatim>\<open>get_key_data_usage\<close> that found a value formats
  \<^verbatim>\<open>round(data_usage/1000000000, 2)\<close> into a log line before it returns, inside the
  \<^verbatim>\<open>try\<close>. Python's true division of integers raises \<^verbatim>\<open>OverflowError\<close> when the correctly
  rounded quotient is not a finite double, that is from \<open>2^1024 - 2^970\<close> on.
\<close>

definition log_gigabytes :: "int \<Rightarrow> exn + unit" where
  "log_gigabytes v =
     (if \<bar>v\<bar> \<ge> (2 ^ 1024 - 2 ^ 970) * 1000000000 then Inl OverflowError else Inr ())"

text \<open>
  A \<^verbatim>\<open>try\<close> block of \<^verbatim>\<open>get_key_data_usage\<close> is a computation that raises, returns a value
  from the function (\<open>Some\<close>) or falls through (\<open>None\<close>); \<^verbatim>\<open>except Exception\<close> turns a raise
  into falling through.
\<close>

definition except_Exception :: "(exn + 'a option) \<Rightarrow> exn + 'a option" where
  "except_Exception block = (case block of Inl e \<Rightarrow> Inr None | Inr r \<Rightarrow> Inr r)"

definition found_usage :: "int \<Rightarrow> exn + int option" where
  "found_usage v = (case log_gigabytes v of Inl e \<Rightarrow> Inl e | Inr u \<Rightarrow> Inr (Some v))"

definition usage_from_report :: "report \<Rightarrow> string \<Rightarrow> exn + int option" where
  "usage_from_report stats key_id =
     (case bytesTransferredByUserId stats of
        None \<Rightarrow> Inr None
      | Some user_stats \<Rightarrow>
          (case user_stats key_id of None \<Rightarrow> Inr None | Some data_usage \<Rightarrow> found_usage data_usage))"

definition usage_from_key_info :: "(exn + key_info) \<Rightarrow> exn + int option" where
  "usage_from_key_info response =
     (case response of
        Inl e \<Rightarrow> Inl e
      | Inr info \<Rightarrow>
          (case usageBytes info of
             Some v \<Rightarrow> found_usage v
           | None \<Rightarrow>
               (case usage info of
                  Some (Some v) \<Rightarrow> found_usage v
                | _ \<Rightarrow> Inr None)))"

definition get_key_data_usage ::
  "(exn + report) \<Rightarrow> (exn + report) \<Rightarrow> (exn + key_info) \<Rightarrow> string
     \<Rightarrow> exn + int \<times> http_request list" where
  "get_key_data_usage transfer_response metrics_response key_response key_id =
     (let r1 = [Request ''GET'' ''/metrics/transfer'' None];
          r2 = r1 @ [Request ''GET'' ''/metrics'' None];
          r3 = r2 @ [Request ''GET'' (''/access-keys/'' @ key_id) None]
      in case except_Exception
                (usage_from_report (get_server_transfer_stats transfer_response) key_id) of
        Inl e \<Rightarrow> Inl e
      | Inr (Some data_usage) \<Rightarrow> Inr (data_usage, r1)
      | Inr None \<Rightarrow>
          (case except_Exception (usage_from_report (get_metrics metrics_response) key_id) of
             Inl e \<Rightarrow> Inl e
           | Inr (Some data_usage) \<Rightarrow> Inr (data_usage, r2)
           | Inr None \<Rightarrow>
               (case except_Exception (usage_from_key_info key_response) of
                  Inl e \<Rightarrow> Inl e
                | Inr (Some used) \<Rightarrow> Inr (used, r3)
                | Inr None \<Rightarrow> Inr (0, r3))))"

subsection \<open>Attribute lookup on the database object\<close>

text \<open>
  The handlers call methods of the \<^verbatim>\<open>Database\<close> object by name, and Python resolves the
  name when the call is made: a name the class does not define raises
  \<^verbatim>\<open>AttributeError\<close>. The class defines \<^verbatim>\<open>_connection\<close>, \<^verbatim>\<open>_init_db\<close>, \<^verbatim>\<open>save_user\<close>,
  \<^verbatim>\<open>get_user\<close>, \<^verbatim>\<open>set_admin_status\<close>, \<^verbatim>\<open>block_user\<close>, \<^verbatim>\<open>is_user_blocked\<close>, \<^verbatim>\<open>is_admin\<close>,
  \<^verbatim>\<open>log_activity\<close>, \<^verbatim>\<open>save_access_key\<close>, \<^verbatim>\<open>update_key_payment\<close>, \<^verbatim>\<open>update_key_limit\<close>,
  \<^verbatim>\<open>get_user_keys\<close>, \<^verbatim>\<open>get_all_keys\<close>, \<^verbatim>\<open>get_key_owner\<close>, \<^verbatim>\<open>delete_key\<close>,
  \<^verbatim>\<open>count_user_keys\<close>, \<^verbatim>\<open>get_all_users\<close> and \<^verbatim>\<open>sync_keys_with_server\<close>, and its instances
  carry the attributes \<^verbatim>\<open>db_file\<close> and \<^verbatim>\<open>outline\<close>. The two tables below hold the methods
  that can be called with a key identifier, and with a key identifier and an integer.
\<close>

definition Database_key_methods ::
  "(string \<times> (database \<Rightarrow> string \<Rightarrow> bool \<times> database)) list" where
  "Database_key_methods = [(''delete_key'', delete_key)]"

definition Database_key_int_methods ::
  "(string \<times> (database \<Rightarrow> string \<Rightarrow> int \<Rightarrow> bool \<times> database)) list" where
  "Database_key_int_methods =
     [(''update_key_payment'', update_key_payment), (''update_key_limit'', update_key_limit)]"

definition call_key_method :: "string \<Rightarrow> database \<Rightarrow> string \<Rightarrow> exn + bool \<times> database" where
  "call_key_method name d key_id =
     (case map_of Database_key_methods name of
        None \<Rightarrow> Inl AttributeError
      | Some method \<Rightarrow> Inr (method d key_id))"

definition call_key_int_method ::
  "string \<Rightarrow> database \<Rightarrow> string \<Rightarrow> int \<Rightarrow> exn + bool \<times> database" where
  "call_key_int_method name d key_id n =
     (case map_of Database_key_int_methods name of
        None \<Rightarrow> Inl AttributeError
      | Some method \<Rightarrow> Inr (method d key_id n))"

subsection \<open>The state of the bot\<close>

text \<open>
  An entry of \<^verbatim>\<open>user_states\<close> is a dictionary with the keys \<^verbatim>\<open>state\<close>, \<^verbatim>\<open>chat_id\<close>,
  \<^verbatim>\<open>message_id\<close> and, for the limit and date flows, \<^verbatim>\<open>key_id\<close>. A text message is its
  sender and its text. The calls on the bot are
  recorded with the catalogue key of the message they carry; they are taken to succeed,
  except \<^verbatim>\<open>delete_message\<close>, whose failure the code catches.
\<close>

record flow =
  f_state :: string
  f_key_id :: "string option"
  f_chat_id :: int
  f_message_id :: int

datatype bot_call =
  answer_callback_query "string option"
  | send_message int string
  | edit_message_text string
  | delete_message int int

record message =
  from_user :: int
  message_text :: string

record world =
  db :: database
  user_states :: "int \<rightharpoonup> flow"
  bot_calls :: "bot_call list"
  requests :: "http_request list"

definition bot :: "bot_call list \<Rightarrow> world \<Rightarrow> world" where
  "bot calls w = w\<lparr>bot_calls := bot_calls w @ calls\<rparr>"

definition get_key_by_id :: "database \<Rightarrow> string \<Rightarrow> key_row option" where
  "get_key_by_id d key_id =
     (case filter (\<lambda>k. k_key_id k = key_id) (access_keys d) of
        [] \<Rightarrow> None | key # _ \<Rightarrow> Some key)"

text \<open>
  \<^verbatim>\<open>format_key_info\<close> renders the card of a key and reads the server for it: the key's
  record and, when that read succeeds, the key's usage. \<open>card_responses\<close> are the outcomes
  of these reads. The limit the first read reports is formatted twice as
  \<^verbatim>\<open>round(data_limit/1000000000, ...)\<close>: in a log line inside the \<^verbatim>\<open>try\<close>, where the
  \<^verbatim>\<open>OverflowError\<close> of a limit too large for a float only skips the usage read, and again
  after the \<^verbatim>\<open>try\<close>, where the same error leaves the function. The usage is 0 or a value
  that \<open>get_key_data_usage\<close> has formatted already. The result is the exception, if any,
  and the requests made; the text of the card is not modelled, and the timestamps of the
  row are taken to be ones that \<^verbatim>\<open>datetime.fromtimestamp\<close> accepts.
\<close>

record card_responses =
  card_key :: "exn + key_info"
  card_transfer :: "exn + report"
  card_metrics :: "exn + report"
  card_usage_key :: "exn + key_info"

definition format_key_info :: "card_responses \<Rightarrow> string \<Rightarrow> exn option \<times> http_request list" where
  "format_key_info reads key_id =
     (if key_id = [] then (None, [])
      else
        (let read_key = Request ''GET'' (''/access-keys/'' @ key_id) None;
             usage_reads =
               (case get_key_data_usage (card_transfer reads) (card_metrics reads)
                       (card_usage_key reads) key_id of
                  Inl e \<Rightarrow> []
                | Inr (data_usage, issued) \<Rightarrow> issued)
         in case card_key reads of
              Inl e \<Rightarrow> (None, [read_key])
            | Inr server_key \<Rightarrow>
                (case dataLimit server_key of
                   Some (Some limit) \<Rightarrow>
                     (case log_gigabytes limit of
                        Inl e \<Rightarrow> (Some OverflowError, [read_key])
                      | Inr u \<Rightarrow> (None, read_key # usage_reads))
                 | _ \<Rightarrow> (None, read_key # usage_reads))))"

text \<open>
  The end of \<^verbatim>\<open>process_limit_input\<close> and \<^verbatim>\<open>process_date_input\<close>: the prompt is deleted,
  the entry of the actor is removed from \<^verbatim>\<open>user_states\<close>, and the key's card or the main
  menu is sent; when the card cannot be rendered, its exception leaves the handler and
  nothing is sent.
\<close>

definition finish_flow ::
  "card_responses \<Rightarrow> int \<Rightarrow> flow \<Rightarrow> world \<Rightarrow> exn option \<times> world" where
  "finish_flow reads user_id st w =
     (let w1 = bot [delete_message (f_chat_id st) (f_message_id st)] w;
          w2 = w1\<lparr>user_states := (user_states w1)(user_id := None)\<rparr>;
          key = (case f_key_id st of None \<Rightarrow> None | Some key_id \<Rightarrow> get_key_by_id (db w2) key_id)
      in case key of
           Some k \<Rightarrow>
             (let (raised, issued) = format_key_info reads (k_key_id k);
                  w3 = w2\<lparr>requests := requests w2 @ issued\<rparr>
              in case raised of
                   Some e \<Rightarrow> (Some e, w3)
                 | None \<Rightarrow> (None, bot [send_message user_id ''key_info''] w3))
         | None \<Rightarrow> (None, bot [send_message user_id ''welcome''] w2))"

definition str_key_id :: "string option \<Rightarrow> string" where
  "str_key_id key_id = (case key_id of None \<Rightarrow> ''None'' | Some k \<Rightarrow> k)"

subsection \<open>\<^verbatim>\<open>create_key_callback\<close>\<close>

definition create_key_callback :: "config \<Rightarrow> int \<Rightarrow> int \<Rightarrow> int \<Rightarrow> world \<Rightarrow> world" where
  "create_key_callback cfg user_id chat message w =
     (if is_user_blocked (db w) user_id
      then bot [answer_callback_query (Some ''user_blocked'')] w
      else
        (let max_keys =
           (if is_admin cfg (db w) user_id then MAX_KEYS_PER_ADMIN cfg else MAX_KEYS_PER_USER cfg)
         in if count_user_keys (db w) user_id \<ge> max_keys
            then bot [answer_callback_query (Some ''max_keys_reached'')] w
            else
              (bot [answer_callback_query None, edit_message_text ''enter_key_name''] w)
                \<lparr>user_states := (user_states w)(user_id \<mapsto>
                   \<lparr>f_state = ''waiting_for_key_name'', f_key_id = None, f_chat_id = chat,
                    f_message_id = message\<rparr>)\<rparr>))"

subsection \<open>\<^verbatim>\<open>handle_key_name_input\<close>\<close>

text \<open>
  The text of an actor whose entry is \<^verbatim>\<open>waiting_for_key_name\<close> names the key:
  \<^verbatim>\<open>create_access_key\<close> posts the request (\<open>create_response\<close> is its outcome), the key is
  stored for the actor, and the entry is removed whether or not the request succeeded.
\<close>

definition handle_key_name_input ::
  "config \<Rightarrow> int \<Rightarrow> (exn + remote_key) \<Rightarrow> message \<Rightarrow> world \<Rightarrow> exn option \<times> world" where
  "handle_key_name_input cfg now create_response msg w =
     (let user_id = from_user msg in
      case user_states w user_id of
        None \<Rightarrow> (None, w)
      | Some st \<Rightarrow>
          if f_state st \<noteq> ''waiting_for_key_name'' then (None, w)
          else
            (let key_name = strip (message_text msg);
                 w1 = w\<lparr>requests := requests w @ [Request ''POST'' ''/access-keys'' None]\<rparr>;
                 w2 = (case create_response of
                         Inl e \<Rightarrow> bot [send_message user_id ''error''] w1
                       | Inr key_data \<Rightarrow>
                           (bot [send_message user_id ''key_created''] w1)
                             \<lparr>db := log_activity cfg now
                                (save_access_key now (db w1) user_id key_data) user_id
                                ''key_created''
                                (''Created new key '' @ str_key_id (rk_id key_data)
                                   @ '' with name '' @ key_name)\<rparr>);
                 w3 = bot [delete_message (f_chat_id st) (f_message_id st)] w2
             in (None,
                 bot [send_message user_id ''welcome'']
                   (w3\<lparr>user_states := (user_states w3)(user_id := None)\<rparr>))))"

subsection \<open>\<^verbatim>\<open>delete_key_callback\<close>\<close>

text \<open>
  The handler runs for callback data that starts with \<^verbatim>\<open>delete_\<close>; the key identifier is
  the second piece of the data split at underscores. The remote delete is
  \<^verbatim>\<open>outline.delete_access_key\<close>, whose result the handler drops; the local delete is the
  call \<^verbatim>\<open>db.delete_access_key(key_id)\<close>, resolved by name. Everything from the remote
  delete on is inside \<^verbatim>\<open>try ... except Exception\<close>.
\<close>

definition delete_key_callback ::
  "config \<Rightarrow> int \<Rightarrow> (exn + unit) \<Rightarrow> int \<Rightarrow> string \<Rightarrow> world \<Rightarrow> exn option \<times> world" where
  "delete_key_callback cfg now delete_response user_id data w =
     (case split_on CHR ''_'' data of
        _ # key_id # _ \<Rightarrow>
          (case get_key_by_id (db w) key_id of
             None \<Rightarrow> (None, bot [answer_callback_query (Some ''key_not_found'')] w)
           | Some key \<Rightarrow>
               (let admin = is_admin cfg (db w) user_id;
                    is_owner = (k_user_id key = user_id)
                in if \<not> is_owner \<and> \<not> admin
                   then (None, bot [answer_callback_query (Some ''not_admin'')] w)
                   else
                     (let w1 = w\<lparr>requests :=
                            requests w @ snd (delete_access_key delete_response key_id)\<rparr>
                      in case call_key_method ''delete_access_key'' (db w1) key_id of
                           Inl e \<Rightarrow> (None, bot [answer_callback_query (Some ''error'')] w1)
                         | Inr (deleted, d) \<Rightarrow>
                             (None,
                              bot [answer_callback_query (Some ''key_deleted''),
                                   edit_message_text ''welcome'']
                                (w1\<lparr>db := log_activity cfg now d user_id ''key_deleted''
                                        (''Deleted key '' @ key_id)\<rparr>)))))
      | _ \<Rightarrow> (Some IndexError, w))"

subsection \<open>\<^verbatim>\<open>process_limit_input\<close>\<close>

text \<open>
  \<open>parse_limit\<close> is the head of the \<^verbatim>\<open>try\<close> block: the text is read as a float, a value
  that is not positive raises \<^verbatim>\<open>ValueError\<close>, and the byte count is
  \<^verbatim>\<open>int(limit_gb * 1000000000)\<close>.
  \<^verbatim>\<open>except ValueError\<close> answers \<^verbatim>\<open>invalid_limit\<close> and returns; any other exception leaves
  the handler. \<open>change_response\<close> and \<open>read_response\<close> are the outcomes of the two
  requests of \<open>set_data_limit\<close>, \<open>reads\<close> those of the reads for the key's card. The details string of the activity record leaves out the
  formatted float.
\<close>

definition parse_limit :: "'f float_ops \<Rightarrow> string \<Rightarrow> exn + int" where
  "parse_limit F s =
     (case py_float F (strip s) of
        Inl e \<Rightarrow> Inl e
      | Inr limit_gb \<Rightarrow>
          if float_le_zero F limit_gb then Inl ValueError
          else float_to_int F (float_times F limit_gb 1000000000))"

definition process_limit_input ::
  "'f float_ops \<Rightarrow> config \<Rightarrow> int \<Rightarrow> (exn + unit) \<Rightarrow> (exn + key_info) \<Rightarrow> card_responses
     \<Rightarrow> message \<Rightarrow> world \<Rightarrow> exn option \<times> world" where
  "process_limit_input F cfg now change_response read_response reads msg w =
     (let user_id = from_user msg in
      case user_states w user_id of
        None \<Rightarrow> (None, w)
      | Some st \<Rightarrow>
          if f_state st \<noteq> ''waiting_for_limit'' then (None, w)
          else
            (let key_id = f_key_id st
             in case parse_limit F (message_text msg) of
                  Inl e \<Rightarrow>
                    if e = ValueError then (None, bot [send_message user_id ''invalid_limit''] w)
                    else (Some e, w)
                | Inr n \<Rightarrow>
                    (let (ok, issued) =
                           set_data_limit change_response read_response (str_key_id key_id) n;
                         w1 = w\<lparr>requests := requests w @ issued\<rparr>;
                         w2 = (if ok
                               then (bot [send_message user_id ''data_limit_set''] w1)
                                      \<lparr>db := log_activity cfg now (db w1) user_id ''limit_set''
                                         (''Set data limit for key '' @ str_key_id key_id)\<rparr>
                               else bot [send_message user_id ''error''] w1)
                     in finish_flow reads user_id st w2)))"

subsection \<open>\<^verbatim>\<open>process_date_input\<close>\<close>

text \<open>
  A naive \<^verbatim>\<open>datetime\<close> is its seven fields, compared field by field. The constructor
  raises \<^verbatim>\<open>OverflowError\<close> for an argument outside the C \<^verbatim>\<open>int\<close> range and \<^verbatim>\<open>ValueError\<close>
  for a year, month or day out of range. The clock is a parameter: \<open>time_now\<close> is
  \<^verbatim>\<open>int(time.time())\<close>, \<open>datetime_now\<close> is \<^verbatim>\<open>datetime.datetime.now()\<close>, and \<open>to_timestamp\<close> is
  \<^verbatim>\<open>int(date.timestamp())\<close>, which depends on the time zone of the process.
\<close>

type_synonym datetime = "int \<times> int \<times> int \<times> int \<times> int \<times> int \<times> int"

record clock =
  time_now :: int
  datetime_now :: datetime
  to_timestamp :: "datetime \<Rightarrow> int"

definition is_leap :: "int \<Rightarrow> bool" where
  "is_leap year = (year mod 4 = 0 \<and> (year mod 100 \<noteq> 0 \<or> year mod 400 = 0))"

definition days_in_month :: "int \<Rightarrow> int \<Rightarrow> int" where
  "days_in_month year month =
     (if month = 2 then (if is_leap year then 29 else 28)
      else if month \<in> {4, 6, 9, 11} then 30 else 31)"

definition c_int :: "int \<Rightarrow> bool" where
  "c_int n = (- (2 ^ 31) \<le> n \<and> n < 2 ^ 31)"

definition datetime_new :: "int \<Rightarrow> int \<Rightarrow> int \<Rightarrow> exn + datetime" where
  "datetime_new year month day =
     (if \<not> (c_int year \<and> c_int month \<and> c_int day) then Inl OverflowError
      else if year < 1 \<or> 9999 < year then Inl ValueError
      else if month < 1 \<or> 12 < month then Inl ValueError
      else if day < 1 \<or> days_in_month year month < day then Inl ValueError
      else Inr (year, month, day, 0, 0, 0, 0))"

fun lex_less :: "int list \<Rightarrow> int list \<Rightarrow> bool" where
  "lex_less (x # xs) (y # ys) = (x < y \<or> (x = y \<and> lex_less xs ys))"
| "lex_less _ _ = False"

definition datetime_less :: "datetime \<Rightarrow> datetime \<Rightarrow> bool" where
  "datetime_less a b =
     (case (a, b) of
        ((y, m, d, h, mi, s, us), (y', m', d', h', mi', s', us')) \<Rightarrow>
          lex_less [y, m, d, h, mi, s, us] [y', m', d', h', mi', s', us'])"

text \<open>
  \<^verbatim>\<open>day, month, year = map(int, text.split('.'))\<close>: every way this can fail (a piece that
  is no integer, fewer or more than three pieces) raises \<^verbatim>\<open>ValueError\<close>.
\<close>

definition day_month_year :: "string \<Rightarrow> exn + int \<times> int \<times> int" where
  "day_month_year s =
     (case map py_int (split_on CHR ''.'' s) of
        [Inr day, Inr month, Inr year] \<Rightarrow> Inr (day, month, year)
      | _ \<Rightarrow> Inl ValueError)"

text \<open>
  The date is stored by the call \<^verbatim>\<open>db.update_paid_until(key_id, timestamp)\<close>, resolved by
  name. It is outside any handler for \<^verbatim>\<open>AttributeError\<close>: only \<^verbatim>\<open>ValueError\<close> is caught.
\<close>

datatype date_check = Rejected string | Raised exn | Accepted datetime

definition check_date :: "clock \<Rightarrow> string \<Rightarrow> date_check" where
  "check_date clk s =
     (case day_month_year (strip s) of
        Inl e \<Rightarrow> if e = ValueError then Rejected ''invalid_date'' else Raised e
      | Inr (day, month, year) \<Rightarrow>
          (case datetime_new year month day of
             Inl e \<Rightarrow> if e = ValueError then Rejected ''invalid_date'' else Raised e
           | Inr date \<Rightarrow>
               if datetime_less date (datetime_now clk) then Rejected ''date_in_past''
               else Accepted date))"

definition process_date_input ::
  "config \<Rightarrow> clock \<Rightarrow> card_responses \<Rightarrow> message \<Rightarrow> world \<Rightarrow> exn option \<times> world" where
  "process_date_input cfg clk reads msg w =
     (let user_id = from_user msg in
      case user_states w user_id of
        None \<Rightarrow> (None, w)
      | Some st \<Rightarrow>
          if f_state st \<noteq> ''waiting_for_date'' then (None, w)
          else
            (let key_id = f_key_id st
             in case check_date clk (message_text msg) of
                  Rejected reply \<Rightarrow> (None, bot [send_message user_id reply] w)
                | Raised e \<Rightarrow> (Some e, w)
                | Accepted date \<Rightarrow>
                    (case call_key_int_method ''update_paid_until'' (db w) (str_key_id key_id)
                            (to_timestamp clk date) of
                       Inl e \<Rightarrow> (Some e, w)
                     | Inr (updated, d) \<Rightarrow>
                         (let w1 = (bot [send_message user_id ''paid_until_set''] w)
                                     \<lparr>db := log_activity cfg (time_now clk) d user_id ''date_set''
                                        (''Set payment date '' @ strip (message_text msg)
                                           @ '' for key '' @ str_key_id key_id)\<rparr>
                          in finish_flow reads user_id st w1))))"

subsection \<open>The specification's words\<close>

text \<open>
  The usage a source reports for a key: an aggregate report yields the entry of the key
  in \<^verbatim>\<open>bytesTransferredByUserId\<close> when the request succeeded and the entry exists; the
  key's own record yields \<^verbatim>\<open>usageBytes\<close> or, failing that, \<^verbatim>\<open>usage.bytes\<close>. \<open>getUsage_spec\<close> is
  the specification's \<^verbatim>\<open>getUsage\<close>: the first source that yields a value wins, and the
  usage is 0 when none does. \<open>probes_spec\<close> is the requests this takes: the sources in
  their fixed order, up to the one that yields.
\<close>

definition reported :: "(exn + report) \<Rightarrow> string \<Rightarrow> int option" where
  "reported response key_id =
     (case response of
        Inl e \<Rightarrow> None
      | Inr r \<Rightarrow> (case bytesTransferredByUserId r of None \<Rightarrow> None | Some m \<Rightarrow> m key_id))"

definition inline_usage :: "(exn + key_info) \<Rightarrow> int option" where
  "inline_usage response =
     (case response of
        Inl e \<Rightarrow> None
      | Inr info \<Rightarrow>
          (case usageBytes info of
             Some v \<Rightarrow> Some v
           | None \<Rightarrow> (case usage info of Some (Some v) \<Rightarrow> Some v | _ \<Rightarrow> None)))"

definition getUsage_spec ::
  "(exn + report) \<Rightarrow> (exn + report) \<Rightarrow> (exn + key_info) \<Rightarrow> string \<Rightarrow> int" where
  "getUsage_spec t m k key_id =
     (case reported t key_id of
        Some v \<Rightarrow> v
      | None \<Rightarrow>
          (case reported m key_id of
             Some v \<Rightarrow> v
           | None \<Rightarrow> (case inline_usage k of Some v \<Rightarrow> v | None \<Rightarrow> 0)))"

definition probes_spec ::
  "(exn + report) \<Rightarrow> (exn + report) \<Rightarrow> string \<Rightarrow> http_request list" where
  "probes_spec t m key_id =
     take (if reported t key_id \<noteq> None then 1 else if reported m key_id \<noteq> None then 2 else 3)
       [Request ''GET'' ''/metrics/transfer'' None, Request ''GET'' ''/metrics'' None,
        Request ''GET'' (''/access-keys/'' @ key_id) None]"

text \<open>
  A byte count whose quotient by \<open>10^9\<close> is a finite double, so that the log line of
  \<^verbatim>\<open>get_key_data_usage\<close> can be formatted: every count below \<open>1.79 * 10^317\<close>.
\<close>

definition loggable :: "int \<Rightarrow> bool" where
  "loggable v = (\<bar>v\<bar> < (2 ^ 1024 - 2 ^ 970) * 1000000000)"

text \<open>
  A listing of the server's keys names each key once: the identifiers that occur in it
  are pairwise distinct. A failed listing has nothing to check.
\<close>

definition distinct_ids :: "(exn + remote_key list) \<Rightarrow> bool" where
  "distinct_ids server_keys =
     (case server_keys of Inl e \<Rightarrow> True | Inr keys \<Rightarrow> distinct (List.map_filter rk_id keys))"

text \<open>The tier limit of an actor: the second constant for an administrator, the first otherwise.\<close>

definition tierLimit :: "config \<Rightarrow> database \<Rightarrow> int \<Rightarrow> int" where
  "tierLimit cfg d user_id =
     (if is_admin cfg d user_id then MAX_KEYS_PER_ADMIN cfg else MAX_KEYS_PER_USER cfg)"

subsection \<open>Example states\<close>

text \<open>
  Key \<^verbatim>\<open>7\<close> of actor 42, pending flows for that key, and a clock for a process that runs
  in UTC at noon of 4 November 2026.
\<close>

definition key_of :: "int \<Rightarrow> string \<Rightarrow> key_row" where
  "key_of user_id key_id =
     \<lparr>k_user_id = user_id, k_key_id = key_id, k_name = ''home'', access_url = ''ss://example'',
      data_limit = 0, paid_until = 0, k_created_at = 1700000000\<rparr>"

definition store_of :: "key_row list \<Rightarrow> database" where
  "store_of rows = \<lparr>users = Map.empty, access_keys = rows, activity_log = []\<rparr>"

definition awaiting :: "string \<Rightarrow> flow" where
  "awaiting s = \<lparr>f_state = s, f_key_id = Some ''7'', f_chat_id = 100, f_message_id = 200\<rparr>"

definition world_of :: "database \<Rightarrow> (int \<rightharpoonup> flow) \<Rightarrow> world" where
  "world_of d st = \<lparr>db = d, user_states = st, bot_calls = [], requests = []\<rparr>"

definition days_from_civil :: "int \<Rightarrow> int \<Rightarrow> int \<Rightarrow> int" where
  "days_from_civil year month day =
     (let y = (if month \<le> 2 then year - 1 else year);
          era = y div 400;
          yoe = y - era * 400;
          doy = (153 * ((month + 9) mod 12) + 2) div 5 + day - 1;
          doe = yoe * 365 + yoe div 4 - yoe div 100 + doy
      in era * 146097 + doe - 719468)"

definition utc_timestamp :: "datetime \<Rightarrow> int" where
  "utc_timestamp dt =
     (case dt of (y, m, d, h, mi, s, us) \<Rightarrow>
        days_from_civil y m d * 86400 + h * 3600 + mi * 60 + s)"

definition noon :: clock where
  "noon = \<lparr>time_now = 1793793600, datetime_now = (2026, 11, 4, 12, 0, 0, 0),
           to_timestamp = utc_timestamp\<rparr>"

definition nine_keys :: "int \<Rightarrow> key_row list" where
  "nine_keys user_id =
     map (key_of user_id)
       [''101'', ''102'', ''103'', ''104'', ''105'', ''106'', ''107'', ''108'', ''109'']"

definition ten_keys :: "int \<Rightarrow> key_row list" where
  "ten_keys user_id = nine_keys user_id @ [key_of user_id ''110'']"

definition no_reads :: card_responses where
  "no_reads =
     \<lparr>card_key = Inl RequestError, card_transfer = Inl RequestError,
      card_metrics = Inl RequestError, card_usage_key = Inl RequestError\<rparr>"

definition blocked_user :: user_row where
  "blocked_user =
     \<lparr>username = Some ''eve'', first_name = None, last_name = None, language_code = None,
      u_is_admin = 0, u_is_blocked = 1, u_created_at = 1700000000, last_activity = 1700000000\<rparr>"

definition server_key :: "string \<Rightarrow> int option \<Rightarrow> remote_key" where
  "server_key key_id limit =
     \<lparr>rk_id = Some key_id, rk_name = Some ''office'', rk_accessUrl = Some ''ss://example'',
      rk_dataLimit = (case limit of None \<Rightarrow> None | Some b \<Rightarrow> Some (Some b))\<rparr>"

section \<open>Properties\<close>

lemmas example_defs = world_of_def store_of_def key_of_def awaiting_def config_example_def
  noon_def blocked_user_def server_key_def nine_keys_def ten_keys_def no_reads_def

lemmas text_defs = py_int_def strip_def is_space_def is_int_space_def is_digit_def
  digit_value_def

lemmas sync_defs = sync_keys_with_server_def sync_key_def db_keys_of_def key_name_of_def
  data_limit_of_def insert_or_ignore_user_def startswith_def sqlite_integer_def

subsection \<open>The built-in conversions\<close>

text \<open>
  The unit separator is removed by \<open>strip\<close> and is no whitespace for \<open>py_int\<close>, and
  surrounding blanks, a sign and single underscores are read.
\<close>

lemma py_int_examples:
  "py_int [CHR ''1'', CHR 0x1F] = Inl ValueError"
  "strip [CHR ''1'', CHR 0x1F] = ''1''"
  "py_int '' -1_0 '' = Inr (- 10)"
  "py_int ''1__0'' = Inl ValueError"
  by (simp_all add: text_defs)

subsection \<open>Deleting a key\<close>

text \<open>
  The class has no attribute \<^verbatim>\<open>delete_access_key\<close>, so the local delete of
  \<open>delete_key_callback\<close> raises and the handler's \<^verbatim>\<open>except\<close> branch answers with the error
  text: the callback never changes the tables. The method the class does define,
  \<open>delete_key\<close>, removes every row of the key.
\<close>

lemma delete_access_key_undefined: "map_of Database_key_methods ''delete_access_key'' = None"
  by (simp add: Database_key_methods_def)

lemma delete_key_callback_keeps_store:
  "db (snd (delete_key_callback cfg now response user_id data w)) = db w"
  by (simp add: delete_key_callback_def call_key_method_def delete_access_key_undefined bot_def
      Let_def split: list.splits option.splits)

lemma delete_key_removes: "get_key_by_id (snd (delete_key d key_id)) key_id = None"
  by (simp add: delete_key_def get_key_by_id_def)

text \<open>
  C1. The claim: after a deletion requested by the owner or an administrator, the local
  row of the key is absent, also when the remote delete fails. The code at such a
  request: actor 42 owns key \<^verbatim>\<open>7\<close> and presses its delete button. The remote delete is
  requested first; then the handler answers with the error text and the row of key \<^verbatim>\<open>7\<close>
  is still in the table, whether the remote delete failed or succeeded.
\<close>

theorem delete_key_callback_row_remains:
  "delete_key_callback config_example 1793793600 (Inl RequestError) 42 ''delete_7''
      (world_of (store_of [key_of 42 ''7'']) Map.empty)
     = (None,
        \<lparr>db = store_of [key_of 42 ''7''], user_states = Map.empty,
         bot_calls = [answer_callback_query (Some ''error'')],
         requests = [Request ''DELETE'' ''/access-keys/7'' None]\<rparr>)
   \<and> get_key_by_id (db (snd (delete_key_callback config_example 1793793600 (Inl RequestError)
        42 ''delete_7'' (world_of (store_of [key_of 42 ''7'']) Map.empty)))) ''7''
     = Some (key_of 42 ''7'')
   \<and> get_key_by_id (db (snd (delete_key_callback config_example 1793793600 (Inr ())
        42 ''delete_7'' (world_of (store_of [key_of 42 ''7'']) Map.empty)))) ''7''
     = Some (key_of 42 ''7'')"
  by (simp add: delete_key_callback_def call_key_method_def Database_key_methods_def
      delete_access_key_def get_key_by_id_def is_admin_def bot_def Let_def
      world_of_def store_of_def key_of_def config_example_def)

subsection \<open>Pending flows\<close>

text \<open>
  The end of a flow removes the entry, also when the card cannot be rendered afterwards
  (a limit on the server too large for a float).
\<close>

lemma finish_flow_idle: "user_states (snd (finish_flow reads user_id st w)) user_id = None"
  by (simp add: finish_flow_def bot_def Let_def split: option.splits prod.splits)

lemma format_key_info_overflow:
  "format_key_info
      (no_reads\<lparr>card_key :=
         Inr \<lparr>dataLimit = Some (Some (2 ^ 1024 * 1000000000)), usageBytes = None,
              usage = None\<rparr>\<rparr>) ''7''
     = (Some OverflowError, [Request ''GET'' ''/access-keys/7'' None])"
  by (simp add: format_key_info_def log_gigabytes_def no_reads_def Let_def)

text \<open>A text that is no number, or a number that is not positive, is a \<^verbatim>\<open>ValueError\<close>.\<close>

lemma parse_limit_rejects:
  "py_float F (strip s) = Inl ValueError
     \<or> (\<exists>x. py_float F (strip s) = Inr x \<and> float_le_zero F x)
   \<Longrightarrow> parse_limit F s = Inl ValueError"
  by (auto simp: parse_limit_def)

text \<open>
  C2, as the specification states it, fails: an administrator awaiting a limit value
  sends \<^verbatim>\<open>abc\<close>; the handler answers \<^verbatim>\<open>invalid_limit\<close> and returns before the entry is
  removed, so the actor is still awaiting the limit value.
\<close>

theorem process_limit_input_malformed_counterexample:
  "user_states (snd (process_limit_input whole_floats config_example 1793793600
       (Inr ()) (Inl RequestError) no_reads \<lparr>from_user = 123456789, message_text = ''abc''\<rparr>
       (world_of (store_of [key_of 42 ''7'']) [123456789 \<mapsto> awaiting ''waiting_for_limit''])))
     123456789
   = Some (awaiting ''waiting_for_limit'')"
  by (simp add: process_limit_input_def parse_limit_def whole_floats_def text_defs world_of_def awaiting_def bot_def Let_def)

text \<open>
  C2, amended. For an actor awaiting a limit value, a text that converts to a byte count
  leaves the actor with no pending flow, whether or not the remote call succeeds; a text
  that does not convert (no number, not positive, not finite) leaves the pending flow as
  it was. For an actor awaiting an expiry date, a text that is rejected (no
  day.month.year literal, no calendar date, a date before the current instant) or that
  raises leaves the pending flow as it was.
\<close>

theorem awaiting_flow_after_input:
  "user_states w (from_user msg) = Some st \<Longrightarrow>
   (f_state st = ''waiting_for_limit'' \<longrightarrow>
      (\<forall>n. parse_limit F (message_text msg) = Inr n \<longrightarrow>
         user_states (snd (process_limit_input F cfg now c r reads msg w)) (from_user msg) = None)
    \<and> (\<forall>e. parse_limit F (message_text msg) = Inl e \<longrightarrow>
         user_states (snd (process_limit_input F cfg now c r reads msg w)) (from_user msg) = Some st))
   \<and> (f_state st = ''waiting_for_date'' \<longrightarrow>
      (\<forall>reply. check_date clk (message_text msg) = Rejected reply \<longrightarrow>
         user_states (snd (process_date_input cfg clk reads msg w)) (from_user msg) = Some st)
    \<and> (\<forall>e. check_date clk (message_text msg) = Raised e \<longrightarrow>
         user_states (snd (process_date_input cfg clk reads msg w)) (from_user msg) = Some st))"
  by (auto simp: process_limit_input_def process_date_input_def Let_def finish_flow_idle bot_def
      split: prod.splits)

theorem awaiting_flow_after_input_witness:
  "user_states (snd (process_limit_input whole_floats config_example 1793793600
       (Inr ()) (Inl RequestError) no_reads \<lparr>from_user = 123456789, message_text = ''5''\<rparr>
       (world_of (store_of [key_of 42 ''7'']) [123456789 \<mapsto> awaiting ''waiting_for_limit''])))
     123456789 = None
   \<and> user_states (snd (process_limit_input whole_floats config_example 1793793600
       (Inr ()) (Inl RequestError) no_reads \<lparr>from_user = 123456789, message_text = ''-3''\<rparr>
       (world_of (store_of [key_of 42 ''7'']) [123456789 \<mapsto> awaiting ''waiting_for_limit''])))
     123456789 = Some (awaiting ''waiting_for_limit'')
   \<and> user_states (snd (process_date_input config_example noon no_reads
       \<lparr>from_user = 123456789, message_text = ''03.11.2026''\<rparr>
       (world_of (store_of [key_of 42 ''7'']) [123456789 \<mapsto> awaiting ''waiting_for_date''])))
     123456789 = Some (awaiting ''waiting_for_date'')"
proof -
  let ?wl = "world_of (store_of [key_of 42 ''7'']) [123456789 \<mapsto> awaiting ''waiting_for_limit'']"
  let ?wd = "world_of (store_of [key_of 42 ''7'']) [123456789 \<mapsto> awaiting ''waiting_for_date'']"
  let ?m5 = "\<lparr>from_user = 123456789, message_text = ''5''\<rparr>"
  let ?m3 = "\<lparr>from_user = 123456789, message_text = ''-3''\<rparr>"
  let ?md = "\<lparr>from_user = 123456789, message_text = ''03.11.2026''\<rparr>"
  have l5: "user_states ?wl (from_user ?m5) = Some (awaiting ''waiting_for_limit'')"
    by (simp add: world_of_def)
  have l3: "user_states ?wl (from_user ?m3) = Some (awaiting ''waiting_for_limit'')"
    by (simp add: world_of_def)
  have ld: "user_states ?wd (from_user ?md) = Some (awaiting ''waiting_for_date'')"
    by (simp add: world_of_def)
  have p5: "parse_limit whole_floats (message_text ?m5) = Inr 5000000000"
    by (simp add: parse_limit_def whole_floats_def text_defs)
  have p3: "parse_limit whole_floats (message_text ?m3) = Inl ValueError"
    by (simp add: parse_limit_def whole_floats_def text_defs)
  have pd: "check_date noon (message_text ?md) = Rejected ''date_in_past''"
    by (simp add: check_date_def day_month_year_def datetime_new_def datetime_less_def
        days_in_month_def c_int_def noon_def text_defs)
  have sl: "f_state (awaiting ''waiting_for_limit'') = ''waiting_for_limit''"
    and sd: "f_state (awaiting ''waiting_for_date'') = ''waiting_for_date''"
    by (simp_all add: awaiting_def)
  have a: "user_states (snd (process_limit_input whole_floats config_example 1793793600
       (Inr ()) (Inl RequestError) no_reads ?m5 ?wl)) (from_user ?m5) = None"
    using awaiting_flow_after_input [OF l5, of whole_floats config_example 1793793600
        "Inr ()" "Inl RequestError" no_reads noon] sl p5
    by blast
  have b: "user_states (snd (process_limit_input whole_floats config_example 1793793600
       (Inr ()) (Inl RequestError) no_reads ?m3 ?wl)) (from_user ?m3)
       = Some (awaiting ''waiting_for_limit'')"
    using awaiting_flow_after_input [OF l3, of whole_floats config_example 1793793600
        "Inr ()" "Inl RequestError" no_reads noon] sl p3
    by blast
  have c: "user_states (snd (process_date_input config_example noon no_reads ?md ?wd)) (from_user ?md)
       = Some (awaiting ''waiting_for_date'')"
    using awaiting_flow_after_input [OF ld, of whole_floats config_example 1793793600
        "Inr ()" "Inl RequestError" no_reads noon] sd pd
    by blast
  show ?thesis using a b c by simp
qed

subsection \<open>Setting the expiry date\<close>

text \<open>
  The class has no attribute \<^verbatim>\<open>update_paid_until\<close> (its method for the payment date is
  \<^verbatim>\<open>update_key_payment\<close>), so \<open>process_date_input\<close> never changes the tables.
\<close>

lemma update_paid_until_undefined: "map_of Database_key_int_methods ''update_paid_until'' = None"
  by (simp add: Database_key_int_methods_def)

lemma process_date_input_keeps_store:
  "db (snd (process_date_input cfg clk reads msg w)) = db w"
  by (simp add: process_date_input_def call_key_int_method_def update_paid_until_undefined
      bot_def Let_def split: option.splits date_check.splits)

lemma check_date_2031: "check_date noon ''01.01.2031'' = Accepted (2031, 1, 1, 0, 0, 0, 0)"
  by (simp add: check_date_def day_month_year_def datetime_new_def datetime_less_def
      days_in_month_def c_int_def noon_def text_defs)

text \<open>
  C3. The claim: a well-formed date that is not before the current instant is stored as
  the key's \<^verbatim>\<open>paid_until\<close>, without a remote call. The code at such a request: at noon of
  4 November 2026 an administrator awaiting the date for key \<^verbatim>\<open>7\<close> sends \<^verbatim>\<open>01.01.2031\<close>. The
  date is accepted, the call that should store it raises \<^verbatim>\<open>AttributeError\<close> out of the
  handler, and the state is what it was: \<^verbatim>\<open>paid_until\<close> of the key is still 0.
\<close>

theorem process_date_input_not_stored:
  "check_date noon ''01.01.2031'' = Accepted (2031, 1, 1, 0, 0, 0, 0)
   \<and> process_date_input config_example noon no_reads
        \<lparr>from_user = 123456789, message_text = ''01.01.2031''\<rparr>
        (world_of (store_of [key_of 42 ''7'']) [123456789 \<mapsto> awaiting ''waiting_for_date''])
     = (Some AttributeError,
        world_of (store_of [key_of 42 ''7'']) [123456789 \<mapsto> awaiting ''waiting_for_date''])
   \<and> map paid_until (access_keys (db (snd (process_date_input config_example noon no_reads
        \<lparr>from_user = 123456789, message_text = ''01.01.2031''\<rparr>
        (world_of (store_of [key_of 42 ''7''])
           [123456789 \<mapsto> awaiting ''waiting_for_date''])))))
     = [0]"
  by (simp add: check_date_2031 process_date_input_def call_key_int_method_def
      update_paid_until_undefined Let_def world_of_def store_of_def key_of_def awaiting_def)

subsection \<open>Gigabytes to bytes\<close>

text \<open>
  The one place where a gigabyte value entered by a person is converted is the limit
  handler. \<open>gb_to_bytes\<close> of \<^verbatim>\<open>utils.py\<close>, which multiplies by \<open>1024^3\<close>, is imported by
  \<^verbatim>\<open>key_manager.py\<close> and called nowhere.
\<close>

lemma gb_to_bytes_five: "gb_to_bytes F (PyInt 5) = Inr 5368709120"
  by (simp add: gb_to_bytes_def)

text \<open>On whole numbers, where floats are exact, the byte count is the number times \<open>10^9\<close>.\<close>

lemma parse_limit_whole:
  "py_int (strip s) = Inr g \<Longrightarrow> 0 < g \<Longrightarrow> parse_limit whole_floats s = Inr (g * 1000000000)"
  by (simp add: parse_limit_def whole_floats_def)

text \<open>
  C4. For every text that an actor awaiting a limit value enters and the handler accepts
  (it reads as a float \<open>limit_gb\<close> that is positive), the byte count handed to the remote
  client is \<^verbatim>\<open>int(limit_gb * 1000000000)\<close>, the decimal convention: the requests of
  \<open>set_data_limit\<close> for that count are the next requests made, and for a positive count
  the first of them is the \<^verbatim>\<open>PUT\<close> that carries exactly that count. For the text \<^verbatim>\<open>5\<close> the
  count is 5,000,000,000.
\<close>

theorem process_limit_input_decimal:
  assumes "user_states w (from_user msg) = Some st"
    and "f_state st = ''waiting_for_limit''"
    and "py_float F (strip (message_text msg)) = Inr limit_gb"
    and "\<not> float_le_zero F limit_gb"
    and "float_to_int F (float_times F limit_gb 1000000000) = Inr limit_bytes"
  shows "(\<exists>rest. requests (snd (process_limit_input F cfg now c r reads msg w))
            = requests w @ snd (set_data_limit c r (str_key_id (f_key_id st)) limit_bytes) @ rest)
         \<and> (0 < limit_bytes \<longrightarrow>
              (\<exists>rest. requests (snd (process_limit_input F cfg now c r reads msg w))
                 = requests w
                   @ Request ''PUT'' (''/access-keys/'' @ str_key_id (f_key_id st) @ ''/data-limit'')
                       (Some limit_bytes) # rest))"
proof -
  have p: "parse_limit F (message_text msg) = Inr limit_bytes"
    using assms(3-5) by (simp add: parse_limit_def)
  obtain ok issued where sdl:
    "set_data_limit c r (str_key_id (f_key_id st)) limit_bytes = (ok, issued)"
    by (cases "set_data_limit c r (str_key_id (f_key_id st)) limit_bytes") auto
  have 1: "\<exists>rest. requests (snd (process_limit_input F cfg now c r reads msg w))
            = requests w @ issued @ rest"
    using assms(1,2) p sdl
    by (auto simp: process_limit_input_def finish_flow_def bot_def Let_def
        split: option.splits prod.splits)
  have 2: "0 < limit_bytes \<Longrightarrow> \<exists>more. issued
      = Request ''PUT'' (''/access-keys/'' @ str_key_id (f_key_id st) @ ''/data-limit'')
          (Some limit_bytes) # more"
    using sdl by (auto simp: set_data_limit_def Let_def split: sum.splits option.splits if_splits)
  show ?thesis
  proof (intro conjI impI)
    show "\<exists>rest. requests (snd (process_limit_input F cfg now c r reads msg w))
            = requests w @ snd (set_data_limit c r (str_key_id (f_key_id st)) limit_bytes) @ rest"
      using 1 sdl by simp
  next
    assume "0 < limit_bytes"
    then obtain more where m: "issued
      = Request ''PUT'' (''/access-keys/'' @ str_key_id (f_key_id st) @ ''/data-limit'')
          (Some limit_bytes) # more"
      using 2 by blast
    from 1 obtain rest where "requests (snd (process_limit_input F cfg now c r reads msg w))
            = requests w @ issued @ rest" by blast
    then have "requests (snd (process_limit_input F cfg now c r reads msg w))
            = requests w
              @ Request ''PUT'' (''/access-keys/'' @ str_key_id (f_key_id st) @ ''/data-limit'')
                  (Some limit_bytes) # (more @ rest)"
      using m by simp
    then show "\<exists>rest. requests (snd (process_limit_input F cfg now c r reads msg w))
                 = requests w
                   @ Request ''PUT'' (''/access-keys/'' @ str_key_id (f_key_id st) @ ''/data-limit'')
                       (Some limit_bytes) # rest"
      by blast
  qed
qed

theorem process_limit_input_decimal_witness:
  "py_float whole_floats (strip ''5'') = Inr 5
   \<and> float_to_int whole_floats (float_times whole_floats 5 1000000000) = Inr 5000000000
   \<and> (\<exists>rest. requests (snd (process_limit_input whole_floats config_example 1793793600
        (Inr ()) (Inr \<lparr>dataLimit = Some (Some 5000000000), usageBytes = None, usage = None\<rparr>)
        no_reads \<lparr>from_user = 123456789, message_text = ''5''\<rparr>
        (world_of (store_of [key_of 42 ''7'']) [123456789 \<mapsto> awaiting ''waiting_for_limit''])))
     = Request ''PUT'' ''/access-keys/7/data-limit'' (Some 5000000000) # rest)
   \<and> requests (snd (process_limit_input whole_floats config_example 1793793600
        (Inr ()) (Inr \<lparr>dataLimit = Some (Some 5000000000), usageBytes = None, usage = None\<rparr>)
        no_reads \<lparr>from_user = 123456789, message_text = ''5''\<rparr>
        (world_of (store_of [key_of 42 ''7'']) [123456789 \<mapsto> awaiting ''waiting_for_limit''])))
     = [Request ''PUT'' ''/access-keys/7/data-limit'' (Some 5000000000),
        Request ''GET'' ''/access-keys/7'' None,
        Request ''GET'' ''/access-keys/7'' None]"
proof -
  let ?w = "world_of (store_of [key_of 42 ''7'']) [123456789 \<mapsto> awaiting ''waiting_for_limit'']"
  let ?m = "\<lparr>from_user = 123456789, message_text = ''5''\<rparr>"
  let ?r = "Inr \<lparr>dataLimit = Some (Some 5000000000), usageBytes = None, usage = None\<rparr>
              :: exn + key_info"
  have h1: "user_states ?w (from_user ?m) = Some (awaiting ''waiting_for_limit'')"
    by (simp add: world_of_def)
  have h2: "f_state (awaiting ''waiting_for_limit'') = ''waiting_for_limit''"
    by (simp add: awaiting_def)
  have h3: "py_float whole_floats (strip (message_text ?m)) = Inr 5"
    by (simp add: whole_floats_def text_defs)
  have h4: "\<not> float_le_zero whole_floats 5"
    by (simp add: whole_floats_def)
  have h5: "float_to_int whole_floats (float_times whole_floats 5 1000000000) = Inr 5000000000"
    by (simp add: whole_floats_def)
  have a: "\<exists>rest. requests (snd (process_limit_input whole_floats config_example 1793793600
        (Inr ()) ?r no_reads ?m ?w))
     = Request ''PUT'' ''/access-keys/7/data-limit'' (Some 5000000000) # rest"
    using process_limit_input_decimal [OF h1 h2 h3 h4 h5, of config_example 1793793600
        "Inr ()" ?r no_reads]
    by (simp add: world_of_def awaiting_def str_key_id_def)
  have b: "requests (snd (process_limit_input whole_floats config_example 1793793600
        (Inr ()) ?r no_reads ?m ?w))
     = [Request ''PUT'' ''/access-keys/7/data-limit'' (Some 5000000000),
        Request ''GET'' ''/access-keys/7'' None,
        Request ''GET'' ''/access-keys/7'' None]"
    by (simp add: whole_floats_def process_limit_input_def parse_limit_def
      set_data_limit_def finish_flow_def format_key_info_def str_key_id_def
      get_key_by_id_def bot_def log_activity_def Let_def example_defs text_defs)
  show ?thesis using h3 h5 a b by simp
qed

subsection \<open>Verifying a changed limit\<close>

text \<open>
  C5, as the specification states it, fails: the change request succeeds and the read
  that should verify it fails; \<open>set_data_limit\<close> answers \<^verbatim>\<open>True\<close>.
\<close>

theorem set_data_limit_read_failure_counterexample:
  "set_data_limit (Inr ()) (Inl RequestError) ''7'' 5000000000
     = (True, [Request ''PUT'' ''/access-keys/7/data-limit'' (Some 5000000000),
               Request ''GET'' ''/access-keys/7'' None])"
  by (simp add: set_data_limit_def)

text \<open>
  C5, amended. The first request of \<open>set_data_limit\<close> is the removal of the limit when the
  byte count is 0 (or negative) and the \<^verbatim>\<open>PUT\<close> of the count otherwise. A failed change
  request gives \<^verbatim>\<open>False\<close>. After a successful change the key is read again: a limit that
  differs from the requested one (or is missing, or is still there after a removal) gives
  \<^verbatim>\<open>False\<close>, and a failure of this read gives \<^verbatim>\<open>True\<close>.
\<close>

theorem set_data_limit_verification:
  "hd (snd (set_data_limit c r key_id limit_bytes))
     = (if limit_bytes > 0
        then Request ''PUT'' (''/access-keys/'' @ key_id @ ''/data-limit'') (Some limit_bytes)
        else Request ''DELETE'' (''/access-keys/'' @ key_id @ ''/data-limit'') None)
   \<and> (c = Inl e \<longrightarrow> \<not> fst (set_data_limit c r key_id limit_bytes))
   \<and> (c = Inr () \<and> r = Inr info \<and> 0 < limit_bytes \<and> dataLimit info \<noteq> Some (Some limit_bytes)
        \<longrightarrow> \<not> fst (set_data_limit c r key_id limit_bytes))
   \<and> (c = Inr () \<and> r = Inr info \<and> limit_bytes \<le> 0 \<and> dataLimit info \<noteq> None
        \<longrightarrow> \<not> fst (set_data_limit c r key_id limit_bytes))
   \<and> (c = Inr () \<and> r = Inl e' \<longrightarrow> fst (set_data_limit c r key_id limit_bytes))"
  by (auto simp: set_data_limit_def Let_def split: sum.splits option.splits)

theorem set_data_limit_verification_witness:
  "hd (snd (set_data_limit (Inr ()) (Inl RequestError) ''7'' 0))
     = Request ''DELETE'' ''/access-keys/7/data-limit'' None
   \<and> \<not> fst (set_data_limit (Inl RequestError) (Inl RequestError) ''7'' 5000000000)
   \<and> \<not> fst (set_data_limit (Inr ())
        (Inr \<lparr>dataLimit = Some (Some 4000000000), usageBytes = None, usage = None\<rparr>) ''7''
        5000000000)
   \<and> \<not> fst (set_data_limit (Inr ())
        (Inr \<lparr>dataLimit = Some (Some 4000000000), usageBytes = None, usage = None\<rparr>) ''7'' 0)
   \<and> fst (set_data_limit (Inr ()) (Inl RequestError) ''7'' 5000000000)"
proof -
  let ?i = "\<lparr>dataLimit = Some (Some 4000000000), usageBytes = None, usage = None\<rparr>"
  have a: "hd (snd (set_data_limit (Inr ()) (Inl RequestError) ''7'' 0))
     = Request ''DELETE'' ''/access-keys/7/data-limit'' None"
    using set_data_limit_verification [of "Inr ()" "Inl RequestError" "''7''" 0] by simp
  have b: "\<not> fst (set_data_limit (Inl RequestError) (Inl RequestError) ''7'' 5000000000)"
    using set_data_limit_verification
      [of "Inl RequestError" "Inl RequestError" "''7''" 5000000000 RequestError] by simp
  have c: "\<not> fst (set_data_limit (Inr ()) (Inr ?i) ''7'' 5000000000)"
    using set_data_limit_verification
      [of "Inr ()" "Inr ?i" "''7''" 5000000000 _ ?i] by simp
  have d: "\<not> fst (set_data_limit (Inr ()) (Inr ?i) ''7'' 0)"
    using set_data_limit_verification [of "Inr ()" "Inr ?i" "''7''" 0 _ ?i] by simp
  have e: "fst (set_data_limit (Inr ()) (Inl RequestError) ''7'' 5000000000)"
    using set_data_limit_verification
      [of "Inr ()" "Inl RequestError" "''7''" 5000000000 _ _ RequestError] by simp
  show ?thesis using a b c d e by blast
qed

subsection \<open>Placeholder identities\<close>

text \<open>
  The owner of a row that a turn of the reconciliation inserts is the negated number of
  the key identifier.
\<close>

lemma sync_key_placeholder:
  assumes "sync_key dk t key d = Inr d'" and "rk_id key = Some key_id" and "dk key_id = None"
  shows "\<exists>n. py_int key_id = Inr n \<and> k_user_id (last (access_keys d')) = - n"
  using assms
  by (auto simp: sync_key_def Let_def split: option.splits sum.splits if_splits)

text \<open>
  A key whose negated number does not fit SQLite's \<^verbatim>\<open>INTEGER\<close> ends the pass with nothing
  stored.
\<close>

lemma sync_key_beyond_sqlite_integer:
  "sync_keys_with_server (Inr [server_key ''9223372036854775809'' None]) 1793793600 (store_of [])
     = store_of []"
  by (simp add: sync_defs Let_def example_defs text_defs)

text \<open>
  C6. The claim: the placeholder identity of a key found on the server only is strictly
  negative, whatever the key's number. The code for the key \<^verbatim>\<open>0\<close>: the row and the
  placeholder actor are stored under the identity 0.
\<close>

theorem placeholder_of_key_zero:
  "py_int ''0'' = Inr 0
   \<and> map k_user_id (access_keys (sync_keys_with_server (Inr [server_key ''0'' None]) 1793793600
        (store_of []))) = [0]
   \<and> dom (users (sync_keys_with_server (Inr [server_key ''0'' None]) 1793793600 (store_of [])))
     = {0}"
  by (simp add: sync_defs Let_def example_defs text_defs)

subsection \<open>Reconciliation\<close>

lemma db_keys_of_append:
  "access_keys d' = access_keys d @ [r] \<Longrightarrow>
   db_keys_of d' j = (if k_key_id r = j then Some (data_limit r) else db_keys_of d j)"
  by (simp add: db_keys_of_def)

lemma map_of_rev_limit_other:
  "j \<noteq> i \<Longrightarrow>
   map_of (rev (map (\<lambda>k. (k_key_id k, data_limit k))
     (map (\<lambda>k. if k_key_id k = i then k\<lparr>data_limit := l\<rparr> else k) rows))) j
   = map_of (rev (map (\<lambda>k. (k_key_id k, data_limit k)) rows)) j"
  by (induction rows) (auto simp: map_add_def split: option.splits)

lemma map_of_rev_limit_same_aux:
  "map_of (rev (map (\<lambda>k. (k_key_id k, data_limit k))
     (map (\<lambda>k. if k_key_id k = i then k\<lparr>data_limit := l\<rparr> else k) rows))) i
   = map_option (\<lambda>old. l) (map_of (rev (map (\<lambda>k. (k_key_id k, data_limit k)) rows)) i)"
  by (induction rows) (auto simp: map_add_def split: option.splits)

lemma map_of_rev_limit_same:
  "map_of (rev (map (\<lambda>k. (k_key_id k, data_limit k)) rows)) i = Some old \<Longrightarrow>
   map_of (rev (map (\<lambda>k. (k_key_id k, data_limit k))
     (map (\<lambda>k. if k_key_id k = i then k\<lparr>data_limit := l\<rparr> else k) rows))) i = Some l"
  by (simp add: map_of_rev_limit_same_aux del: map_map)

lemma db_keys_of_update_other:
  "j \<noteq> i \<Longrightarrow>
   access_keys d' = map (\<lambda>k. if k_key_id k = i then k\<lparr>data_limit := l\<rparr> else k) (access_keys d) \<Longrightarrow>
   db_keys_of d' j = db_keys_of d j"
  by (simp add: db_keys_of_def map_of_rev_limit_other del: map_map)

lemma db_keys_of_update_same:
  "db_keys_of d i = Some old \<Longrightarrow>
   access_keys d' = map (\<lambda>k. if k_key_id k = i then k\<lparr>data_limit := l\<rparr> else k) (access_keys d) \<Longrightarrow>
   db_keys_of d' i = Some l"
  by (simp add: db_keys_of_def map_of_rev_limit_same del: map_map)

text \<open>The three ways a turn can succeed.\<close>

lemma sync_key_cases:
  assumes "sync_key dk t key d = Inr d'" and "rk_id key = Some i"
  shows "(dk i = None \<and> (\<exists>r. access_keys d' = access_keys d @ [r] \<and> k_key_id r = i
            \<and> data_limit r = data_limit_of key))
         \<or> (\<exists>old. dk i = Some old \<and> old \<noteq> data_limit_of key \<and> access_keys d' =
              map (\<lambda>k. if k_key_id k = i then k\<lparr>data_limit := data_limit_of key\<rparr> else k)
                (access_keys d))
         \<or> (dk i = Some (data_limit_of key) \<and> d' = d)"
  using assms
  by (auto simp: sync_key_def Let_def split: option.splits sum.splits if_splits)

text \<open>A turn for key i leaves the dictionary entries of the other keys alone.\<close>

lemma sync_key_other:
  assumes "sync_key dk t key d = Inr d'" and "rk_id key = Some i" and "j \<noteq> i"
  shows "db_keys_of d' j = db_keys_of d j"
  using sync_key_cases [OF assms(1,2)] assms(3)
  by (auto simp: db_keys_of_append [of d' d] db_keys_of_update_other [of j i d'])

text \<open>After a turn for key i, the table holds the server's limit for i.\<close>

lemma sync_key_settles:
  assumes "sync_key dk t key d = Inr d'" and "rk_id key = Some i" and "dk i = db_keys_of d i"
  shows "db_keys_of d' i = Some (data_limit_of key)"
  using sync_key_cases [OF assms(1,2)] assms(3)
  by (auto simp: db_keys_of_append [of d' d] db_keys_of_update_same [of d i _ d'])

lemma sync_key_id: "sync_key dk t key d = Inr d' \<Longrightarrow> \<exists>i. rk_id key = Some i"
  by (auto simp: sync_key_def split: option.splits)

lemma sync_loop_other:
  "j \<notin> set (List.map_filter rk_id keys) \<Longrightarrow> db_keys_of (sync_loop dk t keys d) j = db_keys_of d j"
proof (induction keys arbitrary: d)
  case Nil
  then show ?case by simp
next
  case (Cons key keys)
  show ?case
  proof (cases "sync_key dk t key d")
    case (Inl e)
    then show ?thesis by simp
  next
    case (Inr d')
    then obtain i where i: "rk_id key = Some i" using sync_key_id by blast
    with Cons.prems have ji: "j \<noteq> i" and rest: "j \<notin> set (List.map_filter rk_id keys)"
      by (auto simp: map_filter_simps)
    have "db_keys_of (sync_loop dk t keys d') j = db_keys_of d' j"
      using Cons.IH [OF rest] .
    also have "\<dots> = db_keys_of d j" using sync_key_other [OF Inr i ji] .
    finally show ?thesis using Inr by simp
  qed
qed

text \<open>A turn on a table that holds the server's limit for the key changes nothing.\<close>

lemma sync_key_settled:
  "rk_id key = Some i \<Longrightarrow> dk i = Some (data_limit_of key) \<Longrightarrow> sync_key dk t key d = Inr d"
  by (simp add: sync_key_def Let_def)

text \<open>Whether a turn raises depends on the key and on its entry in the dictionary only.\<close>

lemma sync_key_raises_again:
  assumes "sync_key dk t key d = Inl e"
    and "\<forall>i. rk_id key = Some i \<longrightarrow> dk' i = dk i"
  shows "sync_key dk' t' key d2 = Inl e"
  using assms
  by (auto simp: sync_key_def Let_def split: option.splits sum.splits if_splits)

lemma sync_loop_second_pass:
  assumes "distinct (List.map_filter rk_id keys)"
    and "\<forall>i \<in> set (List.map_filter rk_id keys). dk i = db_keys_of d i"
  shows "sync_loop (db_keys_of (sync_loop dk t keys d)) t' keys (sync_loop dk t keys d)
           = sync_loop dk t keys d"
  using assms
proof (induction keys arbitrary: d)
  case Nil
  then show ?case by simp
next
  case (Cons key keys)
  show ?case
  proof (cases "sync_key dk t key d")
    case (Inl e)
    have "sync_key (db_keys_of d) t' key d = Inl e"
    proof (rule sync_key_raises_again [OF Inl], intro allI impI)
      fix i assume "rk_id key = Some i"
      then have "i \<in> set (List.map_filter rk_id (key # keys))" by (simp add: map_filter_simps)
      then show "db_keys_of d i = dk i" using Cons.prems(2) by simp
    qed
    then show ?thesis using Inl by simp
  next
    case (Inr d')
    then obtain i where i: "rk_id key = Some i" using sync_key_id by blast
    let ?D = "sync_loop dk t keys d'"
    from Cons.prems(1) i have fresh: "i \<notin> set (List.map_filter rk_id keys)"
      and dist: "distinct (List.map_filter rk_id keys)"
      by (auto simp: map_filter_simps)
    have dki: "dk i = db_keys_of d i"
      using Cons.prems(2) i by (simp add: map_filter_simps)
    have "db_keys_of ?D i = db_keys_of d' i" using sync_loop_other [OF fresh] .
    also have "\<dots> = Some (data_limit_of key)" using sync_key_settles [OF Inr i dki] .
    finally have noop: "sync_key (db_keys_of ?D) t' key ?D = Inr ?D"
      using sync_key_settled [OF i] by simp
    have acc: "\<forall>j \<in> set (List.map_filter rk_id keys). dk j = db_keys_of d' j"
    proof
      fix j assume j: "j \<in> set (List.map_filter rk_id keys)"
      with fresh have ji: "j \<noteq> i" by auto
      have "dk j = db_keys_of d j" using Cons.prems(2) j i by (simp add: map_filter_simps)
      then show "dk j = db_keys_of d' j" using sync_key_other [OF Inr i ji] by simp
    qed
    have "sync_loop (db_keys_of ?D) t' keys ?D = ?D"
      using Cons.IH [OF dist acc] .
    then show ?thesis using Inr noop by simp
  qed
qed

text \<open>
  C7, as the specification states it, fails: the dictionary of stored limits is read
  before the loop and not updated in it, and a key the dictionary does not hold is stored
  by a plain \<^verbatim>\<open>INSERT\<close>. A listing that names key \<^verbatim>\<open>9\<close> twice, with the limits 5 and 6,
  leaves two rows with these limits after the first pass, and the second pass rewrites
  both rows to the limit 5.
\<close>

theorem sync_keys_with_server_repeated_id_counterexample:
  "map data_limit (access_keys (sync_keys_with_server
       (Inr [server_key ''9'' (Some 5), server_key ''9'' (Some 6)]) 1793793600 (store_of [])))
     = [5, 6]
   \<and> map data_limit (access_keys (sync_keys_with_server
       (Inr [server_key ''9'' (Some 5), server_key ''9'' (Some 6)]) 1793793700
       (sync_keys_with_server
          (Inr [server_key ''9'' (Some 5), server_key ''9'' (Some 6)]) 1793793600 (store_of []))))
     = [5, 5]
   \<and> sync_keys_with_server
       (Inr [server_key ''9'' (Some 5), server_key ''9'' (Some 6)]) 1793793700
       (sync_keys_with_server
          (Inr [server_key ''9'' (Some 5), server_key ''9'' (Some 6)]) 1793793600 (store_of []))
     \<noteq> sync_keys_with_server
          (Inr [server_key ''9'' (Some 5), server_key ''9'' (Some 6)]) 1793793600 (store_of [])"
proof -
  let ?l = "Inr [server_key ''9'' (Some 5), server_key ''9'' (Some 6)] :: exn + remote_key list"
  have a: "map data_limit (access_keys (sync_keys_with_server ?l 1793793600 (store_of [])))
     = [5, 6]"
    by (simp add: sync_defs Let_def example_defs text_defs)
  have b: "map data_limit (access_keys (sync_keys_with_server ?l 1793793700
       (sync_keys_with_server ?l 1793793600 (store_of [])))) = [5, 5]"
    by (simp add: sync_defs Let_def example_defs text_defs)
  have "sync_keys_with_server ?l 1793793700 (sync_keys_with_server ?l 1793793600 (store_of []))
     \<noteq> sync_keys_with_server ?l 1793793600 (store_of [])"
  proof
    assume "sync_keys_with_server ?l 1793793700
        (sync_keys_with_server ?l 1793793600 (store_of []))
      = sync_keys_with_server ?l 1793793600 (store_of [])"
    then have "map data_limit (access_keys (sync_keys_with_server ?l 1793793700
        (sync_keys_with_server ?l 1793793600 (store_of []))))
      = map data_limit (access_keys (sync_keys_with_server ?l 1793793600 (store_of [])))"
      by simp
    then show False unfolding a b by simp
  qed
  then show ?thesis using a b by blast
qed

text \<open>
  C7, amended. A second pass of \<open>sync_keys_with_server\<close> over the same listing leaves the
  tables as the first pass left them, for every state of the tables, every reading of the
  clock and every listing that names each key once (also one that makes the pass stop at
  an exception, and a listing that failed).
\<close>

theorem sync_keys_with_server_idempotent:
  "distinct_ids server_keys \<Longrightarrow>
   sync_keys_with_server server_keys t' (sync_keys_with_server server_keys t d)
     = sync_keys_with_server server_keys t d"
  by (cases server_keys)
     (simp_all add: sync_keys_with_server_def distinct_ids_def sync_loop_second_pass)

theorem sync_keys_with_server_idempotent_witness:
  "distinct_ids (Inr [server_key ''7'' (Some 5000000000), server_key ''8'' None])
   \<and> sync_keys_with_server (Inr [server_key ''7'' (Some 5000000000), server_key ''8'' None])
        1793793700
        (sync_keys_with_server (Inr [server_key ''7'' (Some 5000000000), server_key ''8'' None])
           1793793600 (store_of [key_of 42 ''7'']))
     = sync_keys_with_server (Inr [server_key ''7'' (Some 5000000000), server_key ''8'' None])
         1793793600 (store_of [key_of 42 ''7''])
   \<and> map (\<lambda>k. (k_key_id k, k_user_id k, data_limit k))
        (access_keys (sync_keys_with_server
           (Inr [server_key ''7'' (Some 5000000000), server_key ''8'' None])
           1793793600 (store_of [key_of 42 ''7''])))
     = [(''7'', 42, 5000000000), (''8'', - 8, 0)]"
proof -
  let ?l = "Inr [server_key ''7'' (Some 5000000000), server_key ''8'' None] :: exn + remote_key list"
  have h: "distinct_ids ?l"
    by (simp add: distinct_ids_def server_key_def map_filter_simps)
  have r: "map (\<lambda>k. (k_key_id k, k_user_id k, data_limit k))
        (access_keys (sync_keys_with_server ?l 1793793600 (store_of [key_of 42 ''7''])))
     = [(''7'', 42, 5000000000), (''8'', - 8, 0)]"
    by (simp add: sync_defs Let_def example_defs text_defs)
  show ?thesis
    using h r sync_keys_with_server_idempotent [OF h, of 1793793700 1793793600
        "store_of [key_of 42 ''7'']"]
    by simp
qed

subsection \<open>Quota\<close>

text \<open>
  C8, as the specification states it, fails: a blocked actor of the standard tier with
  no key, below the limit of 1, is refused.
\<close>

theorem create_key_callback_blocked_counterexample:
  "count_user_keys (store_of []\<lparr>users := [5 \<mapsto> blocked_user]\<rparr>) 5 = 0
   \<and> tierLimit config_example (store_of []\<lparr>users := [5 \<mapsto> blocked_user]\<rparr>) 5 = 1
   \<and> create_key_callback config_example 5 100 200
        (world_of (store_of []\<lparr>users := [5 \<mapsto> blocked_user]\<rparr>) Map.empty)
     = bot [answer_callback_query (Some ''user_blocked'')]
         (world_of (store_of []\<lparr>users := [5 \<mapsto> blocked_user]\<rparr>) Map.empty)"
  by (simp add: create_key_callback_def is_user_blocked_def count_user_keys_def tierLimit_def
      is_admin_def example_defs)

text \<open>
  C8, amended. A blocked actor is refused. An actor that is not blocked is refused
  exactly when the number of keys it owns has reached its tier limit; below the limit
  the flow that asks for the key's name starts.
\<close>

theorem create_key_callback_quota:
  "(is_user_blocked (db w) user_id \<longrightarrow>
      create_key_callback cfg user_id chat message w
        = bot [answer_callback_query (Some ''user_blocked'')] w)
   \<and> (\<not> is_user_blocked (db w) user_id
        \<and> count_user_keys (db w) user_id \<ge> tierLimit cfg (db w) user_id \<longrightarrow>
      create_key_callback cfg user_id chat message w
        = bot [answer_callback_query (Some ''max_keys_reached'')] w)
   \<and> (\<not> is_user_blocked (db w) user_id
        \<and> count_user_keys (db w) user_id < tierLimit cfg (db w) user_id \<longrightarrow>
      create_key_callback cfg user_id chat message w
        = (bot [answer_callback_query None, edit_message_text ''enter_key_name''] w)
            \<lparr>user_states := (user_states w)(user_id \<mapsto>
               \<lparr>f_state = ''waiting_for_key_name'', f_key_id = None, f_chat_id = chat,
                f_message_id = message\<rparr>)\<rparr>)"
  by (simp add: create_key_callback_def tierLimit_def Let_def)

theorem create_key_callback_quota_witness:
  "count_user_keys (store_of (nine_keys 123456789)) 123456789 = 9
   \<and> count_user_keys (store_of (ten_keys 123456789)) 123456789 = 10
   \<and> tierLimit config_example (store_of (nine_keys 123456789)) 123456789 = 10
   \<and> tierLimit config_example (store_of [key_of 5 ''7'']) 5 = 1
   \<and> create_key_callback config_example 5 100 200
      (world_of (store_of [key_of 5 ''7'']) Map.empty)
     = bot [answer_callback_query (Some ''max_keys_reached'')]
         (world_of (store_of [key_of 5 ''7'']) Map.empty)
   \<and> user_states (create_key_callback config_example 123456789 100 200
        (world_of (store_of (nine_keys 123456789)) Map.empty)) 123456789
     = Some \<lparr>f_state = ''waiting_for_key_name'', f_key_id = None, f_chat_id = 100,
             f_message_id = 200\<rparr>
   \<and> create_key_callback config_example 123456789 100 200
        (world_of (store_of (ten_keys 123456789)) Map.empty)
     = bot [answer_callback_query (Some ''max_keys_reached'')]
        (world_of (store_of (ten_keys 123456789)) Map.empty)"
proof -
  let ?w1 = "world_of (store_of [key_of 5 ''7'']) Map.empty"
  let ?w9 = "world_of (store_of (nine_keys 123456789)) Map.empty"
  let ?w10 = "world_of (store_of (ten_keys 123456789)) Map.empty"
  have h1: "\<not> is_user_blocked (db ?w1) 5
      \<and> count_user_keys (db ?w1) 5 \<ge> tierLimit config_example (db ?w1) 5"
    by (simp add: is_user_blocked_def count_user_keys_def tierLimit_def is_admin_def
        world_of_def store_of_def key_of_def config_example_def)
  have h9: "\<not> is_user_blocked (db ?w9) 123456789
      \<and> count_user_keys (db ?w9) 123456789 < tierLimit config_example (db ?w9) 123456789"
    by (simp add: is_user_blocked_def count_user_keys_def tierLimit_def is_admin_def
        world_of_def store_of_def key_of_def config_example_def nine_keys_def)
  have h10: "\<not> is_user_blocked (db ?w10) 123456789
      \<and> count_user_keys (db ?w10) 123456789 \<ge> tierLimit config_example (db ?w10) 123456789"
    by (simp add: is_user_blocked_def count_user_keys_def tierLimit_def is_admin_def
        world_of_def store_of_def key_of_def config_example_def nine_keys_def ten_keys_def)
  have a: "create_key_callback config_example 5 100 200 ?w1
     = bot [answer_callback_query (Some ''max_keys_reached'')] ?w1"
    using create_key_callback_quota [of ?w1 5 config_example 100 200] h1 by blast
  have b: "create_key_callback config_example 123456789 100 200 ?w9
        = (bot [answer_callback_query None, edit_message_text ''enter_key_name''] ?w9)
            \<lparr>user_states := (user_states ?w9)(123456789 \<mapsto>
               \<lparr>f_state = ''waiting_for_key_name'', f_key_id = None, f_chat_id = 100,
                f_message_id = 200\<rparr>)\<rparr>"
    using create_key_callback_quota [of ?w9 123456789 config_example 100 200] h9 by blast
  have c: "create_key_callback config_example 123456789 100 200 ?w10
     = bot [answer_callback_query (Some ''max_keys_reached'')] ?w10"
    using create_key_callback_quota [of ?w10 123456789 config_example 100 200] h10 by blast
  have b': "user_states (create_key_callback config_example 123456789 100 200 ?w9) 123456789
     = Some \<lparr>f_state = ''waiting_for_key_name'', f_key_id = None, f_chat_id = 100,
             f_message_id = 200\<rparr>"
    by (subst b) simp
  have n: "count_user_keys (store_of (nine_keys 123456789)) 123456789 = 9
      \<and> count_user_keys (store_of (ten_keys 123456789)) 123456789 = 10
      \<and> tierLimit config_example (store_of (nine_keys 123456789)) 123456789 = 10
      \<and> tierLimit config_example (store_of [key_of 5 ''7'']) 5 = 1"
    by (simp add: count_user_keys_def tierLimit_def is_admin_def store_of_def key_of_def
        config_example_def nine_keys_def ten_keys_def)
  show ?thesis using n a b' c by blast
qed

subsection \<open>Usage of a key\<close>

lemma found_usage_loggable: "loggable v \<Longrightarrow> found_usage v = Inr (Some v)"
  by (simp add: found_usage_def log_gigabytes_def loggable_def)

text \<open>Beyond that bound the log line raises, and the source is passed over.\<close>

lemma found_usage_overflow: "found_usage (2 ^ 1024 * 1000000000) = Inl OverflowError"
  by (simp add: found_usage_def log_gigabytes_def)

lemma except_report:
  "\<forall>v \<in> set_option (reported t key_id). loggable v \<Longrightarrow>
   except_Exception (usage_from_report (get_server_transfer_stats t) key_id) = Inr (reported t key_id)"
  by (auto simp: except_Exception_def usage_from_report_def get_server_transfer_stats_def
      reported_def found_usage_loggable split: sum.splits option.splits)

lemma except_metrics:
  "\<forall>v \<in> set_option (reported t key_id). loggable v \<Longrightarrow>
   except_Exception (usage_from_report (get_metrics t) key_id) = Inr (reported t key_id)"
  by (auto simp: except_Exception_def usage_from_report_def get_metrics_def
      reported_def found_usage_loggable split: sum.splits option.splits)

lemma except_key_info:
  "\<forall>v \<in> set_option (inline_usage k). loggable v \<Longrightarrow>
   except_Exception (usage_from_key_info k) = Inr (inline_usage k)"
  by (auto simp: except_Exception_def usage_from_key_info_def
      inline_usage_def found_usage_loggable split: sum.splits option.splits)

lemma except_Exception_returns: "\<exists>r. except_Exception b = Inr r"
  by (simp add: except_Exception_def split: sum.splits)

text \<open>
  C9. \<open>get_key_data_usage\<close> never raises. Its result is the value of the first source, in
  the order transfer report, legacy report, the key's own record, that yields one for the
  key, and 0 when none does; the requests it issues are the sources in that order, up to
  the one that yields. (The byte counts are below \<open>1.79 * 10^317\<close>.)
\<close>

theorem get_key_data_usage_first_source:
  "(\<exists>r. get_key_data_usage t m k key_id = Inr r)
   \<and> ((\<forall>v \<in> set_option (reported t key_id) \<union> set_option (reported m key_id)
            \<union> set_option (inline_usage k). loggable v)
        \<longrightarrow> get_key_data_usage t m k key_id
              = Inr (getUsage_spec t m k key_id, probes_spec t m key_id))"
proof
  obtain a where a: "except_Exception (usage_from_report (get_server_transfer_stats t) key_id) = Inr a"
    using except_Exception_returns by blast
  obtain b where b: "except_Exception (usage_from_report (get_metrics m) key_id) = Inr b"
    using except_Exception_returns by blast
  obtain c where c: "except_Exception (usage_from_key_info k) = Inr c"
    using except_Exception_returns by blast
  show "\<exists>r. get_key_data_usage t m k key_id = Inr r"
    using a b c by (auto simp: get_key_data_usage_def Let_def split: option.splits)
next
  show "(\<forall>v \<in> set_option (reported t key_id) \<union> set_option (reported m key_id)
            \<union> set_option (inline_usage k). loggable v)
        \<longrightarrow> get_key_data_usage t m k key_id
              = Inr (getUsage_spec t m k key_id, probes_spec t m key_id)"
  proof
    assume h: "\<forall>v \<in> set_option (reported t key_id) \<union> set_option (reported m key_id)
            \<union> set_option (inline_usage k). loggable v"
    have 1: "except_Exception (usage_from_report (get_server_transfer_stats t) key_id) = Inr (reported t key_id)"
      using h by (intro except_report) simp
    have 2: "except_Exception (usage_from_report (get_metrics m) key_id) = Inr (reported m key_id)"
      using h by (intro except_metrics) simp
    have 3: "except_Exception (usage_from_key_info k) = Inr (inline_usage k)"
      using h by (intro except_key_info) simp
    show "get_key_data_usage t m k key_id
              = Inr (getUsage_spec t m k key_id, probes_spec t m key_id)"
      using 1 2 3 by (auto simp: get_key_data_usage_def Let_def getUsage_spec_def probes_spec_def
          split: option.splits)
  qed
qed

theorem get_key_data_usage_first_source_witness:
  "get_key_data_usage
      (Inr \<lparr>bytesTransferredByUserId = Some [''28'' \<mapsto> 96775558316]\<rparr>)
      (Inr \<lparr>bytesTransferredByUserId = Some [''28'' \<mapsto> 5, ''7'' \<mapsto> 12]\<rparr>)
      (Inl RequestError) ''28''
     = Inr (96775558316, [Request ''GET'' ''/metrics/transfer'' None])
   \<and> get_key_data_usage
      (Inr \<lparr>bytesTransferredByUserId = Some [''28'' \<mapsto> 96775558316]\<rparr>)
      (Inr \<lparr>bytesTransferredByUserId = Some [''28'' \<mapsto> 5, ''7'' \<mapsto> 12]\<rparr>)
      (Inl RequestError) ''7''
     = Inr (12, [Request ''GET'' ''/metrics/transfer'' None, Request ''GET'' ''/metrics'' None])
   \<and> get_key_data_usage (Inl RequestError) (Inr \<lparr>bytesTransferredByUserId = None\<rparr>)
      (Inr \<lparr>dataLimit = None, usageBytes = None, usage = Some (Some 33)\<rparr>) ''7''
     = Inr (33, [Request ''GET'' ''/metrics/transfer'' None, Request ''GET'' ''/metrics'' None,
                 Request ''GET'' ''/access-keys/7'' None])
   \<and> get_key_data_usage (Inl RequestError) (Inl RequestError) (Inl RequestError) ''7''
     = Inr (0, [Request ''GET'' ''/metrics/transfer'' None, Request ''GET'' ''/metrics'' None,
                Request ''GET'' ''/access-keys/7'' None])"
proof -
  let ?t = "Inr \<lparr>bytesTransferredByUserId = Some [''28'' \<mapsto> 96775558316]\<rparr> :: exn + report"
  let ?m = "Inr \<lparr>bytesTransferredByUserId = Some [''28'' \<mapsto> 5, ''7'' \<mapsto> 12]\<rparr> :: exn + report"
  let ?k = "Inr \<lparr>dataLimit = None, usageBytes = None, usage = Some (Some 33)\<rparr> :: exn + key_info"
  let ?n = "Inr \<lparr>bytesTransferredByUserId = None\<rparr> :: exn + report"
  have h1: "\<forall>v \<in> set_option (reported ?t ''28'') \<union> set_option (reported ?m ''28'')
              \<union> set_option (inline_usage (Inl RequestError)). loggable v"
    by (simp add: reported_def inline_usage_def loggable_def)
  have h2: "\<forall>v \<in> set_option (reported ?t ''7'') \<union> set_option (reported ?m ''7'')
              \<union> set_option (inline_usage (Inl RequestError)). loggable v"
    by (simp add: reported_def inline_usage_def loggable_def)
  have h3: "\<forall>v \<in> set_option (reported (Inl RequestError) ''7'') \<union> set_option (reported ?n ''7'')
              \<union> set_option (inline_usage ?k). loggable v"
    by (simp add: reported_def inline_usage_def loggable_def)
  have h4: "\<forall>v \<in> set_option (reported (Inl RequestError) ''7'')
              \<union> set_option (reported (Inl RequestError) ''7'')
              \<union> set_option (inline_usage (Inl RequestError)). loggable v"
    by (simp add: reported_def inline_usage_def)
  show ?thesis
    using get_key_data_usage_first_source [THEN conjunct2, THEN mp, OF h1]
      get_key_data_usage_first_source [THEN conjunct2, THEN mp, OF h2]
      get_key_data_usage_first_source [THEN conjunct2, THEN mp, OF h3]
      get_key_data_usage_first_source [THEN conjunct2, THEN mp, OF h4]
    by (simp add: getUsage_spec_def probes_spec_def reported_def inline_usage_def)
qed

subsection \<open>Configured administrators\<close>

text \<open>
  C10. An identity listed in \<^verbatim>\<open>config.ADMIN_IDS\<close> is an administrator for \<open>is_admin\<close>
  whatever the \<^verbatim>\<open>users\<close> table holds: no row at all, a row whose \<^verbatim>\<open>is_admin\<close> column is 0,
  a row whose \<^verbatim>\<open>is_blocked\<close> column is set. The table is not consulted.
\<close>

theorem is_admin_configured:
  "user_id \<in> set (ADMIN_IDS cfg) \<Longrightarrow> is_admin cfg d user_id"
  by (simp add: is_admin_def)

theorem is_admin_configured_witness:
  "987654321 \<in> set (ADMIN_IDS config_example)
   \<and> is_admin config_example
        \<lparr>users = [987654321 \<mapsto> \<lparr>username = None, first_name = None, last_name = None,
            language_code = None, u_is_admin = 0, u_is_blocked = 1, u_created_at = 0,
            last_activity = 0\<rparr>], access_keys = [], activity_log = []\<rparr> 987654321
   \<and> is_admin config_example \<lparr>users = Map.empty, access_keys = [], activity_log = []\<rparr> 987654321"
proof -
  have h: "987654321 \<in> set (ADMIN_IDS config_example)"
    by (simp add: config_example_def)
  show ?thesis
    using h is_admin_configured [OF h] by simp
qed

end
